theory Spec2Isabelle
  imports Complex_Main
begin

section \<open>Python values and errors\<close>

text \<open>
  The exceptions the modelled code can raise: indexing a list out of range, \<open>min\<close> or
  \<open>max\<close> of an empty sequence, integer division by zero, and a missing key of a
  variable dictionary. The source defines no exception class of its own.
\<close>

datatype py_error = IndexError | ValueError | ZeroDivisionError | KeyError

text \<open>\<open>xs[i]\<close> for a non-negative index.\<close>

definition py_index :: "'a list \<Rightarrow> nat \<Rightarrow> py_error + 'a" where
  "py_index xs i = (if i < length xs then Inr (xs ! i) else Inl IndexError)"

text \<open>\<open>min(...)\<close> and \<open>max(...)\<close> of a sequence of integers.\<close>

fun py_min :: "int list \<Rightarrow> py_error + int" where
  "py_min [] = Inl ValueError"
| "py_min (x # xs) = Inr (fold min xs x)"

fun py_max :: "int list \<Rightarrow> py_error + int" where
  "py_max [] = Inl ValueError"
| "py_max (x # xs) = Inr (fold max xs x)"

text \<open>
  The generator \<open>p[j][m] for m in range(M)\<close>, consumed to its end: with \<open>M = 0\<close> it
  yields nothing and never reads \<open>p\<close>; otherwise reading \<open>p[j]\<close> or \<open>p[j][m]\<close> out of
  range raises IndexError.
\<close>

definition mode_durations :: "nat \<Rightarrow> int list list \<Rightarrow> nat \<Rightarrow> py_error + int list" where
  "mode_durations M p j =
     (if M = 0 then Inr []
      else if j < length p \<and> M \<le> length (p ! j) then Inr (take M (p ! j))
      else Inl IndexError)"

definition min_over_modes :: "nat \<Rightarrow> int list list \<Rightarrow> nat \<Rightarrow> py_error + int" where
  "min_over_modes M p j =
     (case mode_durations M p j of Inl e \<Rightarrow> Inl e | Inr ds \<Rightarrow> py_min ds)"

definition max_over_modes :: "nat \<Rightarrow> int list list \<Rightarrow> nat \<Rightarrow> py_error + int" where
  "max_over_modes M p j =
     (case mode_durations M p j of Inl e \<Rightarrow> Inl e | Inr ds \<Rightarrow> py_max ds)"

section \<open>utils.py: the bound estimator\<close>

text \<open>
  Activities and modes are indexed by natural numbers, durations are Python integers.
  Of its nine parameters \<open>get_earliest_start_time\<close> reads \<open>n\<close>, \<open>M\<close>, \<open>E\<close> and
  \<open>p\<close> only, and so does \<open>get_latest_start_time\<close>.

  The body of the inner loop of the forward pass, for the edge \<open>(j, k)\<close>.
\<close>

fun est_edge :: "nat \<Rightarrow> int list list \<Rightarrow> nat \<Rightarrow> nat \<times> nat \<Rightarrow> int list \<Rightarrow> py_error + int list" where
  "est_edge M p i (j, k) est =
     (if k = i then
        (case min_over_modes M p j of
           Inl e \<Rightarrow> Inl e
         | Inr d \<Rightarrow>
             (if j < length est then Inr (est[i := max (est ! j + d) (est ! i)])
              else Inl IndexError))
      else Inr est)"

text \<open>\<open>for j, k in E\<close>.\<close>

fun est_edges :: "nat \<Rightarrow> int list list \<Rightarrow> nat \<Rightarrow> (nat \<times> nat) list \<Rightarrow> int list \<Rightarrow> py_error + int list" where
  "est_edges M p i [] est = Inr est"
| "est_edges M p i (e # es) est =
     (case est_edge M p i e est of Inl x \<Rightarrow> Inl x | Inr est' \<Rightarrow> est_edges M p i es est')"

text \<open>\<open>for i in range(1, n)\<close>, over the list of the values of \<open>i\<close>.\<close>

fun est_loop :: "nat \<Rightarrow> (nat \<times> nat) list \<Rightarrow> int list list \<Rightarrow> nat list \<Rightarrow> int list \<Rightarrow> py_error + int list" where
  "est_loop M E p [] est = Inr est"
| "est_loop M E p (i # is) est =
     (case est_edges M p i E est of Inl x \<Rightarrow> Inl x | Inr est' \<Rightarrow> est_loop M E p is est')"

text \<open>With \<open>n = 0\<close> the assignment to index 0 of the empty list raises.\<close>

definition get_earliest_start_time :: "nat \<Rightarrow> nat \<Rightarrow> (nat \<times> nat) list \<Rightarrow> int list list \<Rightarrow> py_error + int list" where
  "get_earliest_start_time n M E p =
     (if n = 0 then Inl IndexError
      else est_loop M E p [1..<n] ((replicate n 0)[0 := 0]))"

text \<open>The backward pass: the edge is read as \<open>(k, j)\<close> and the slowest mode is taken.\<close>

fun lst_edge :: "nat \<Rightarrow> int list list \<Rightarrow> nat \<Rightarrow> nat \<times> nat \<Rightarrow> int list \<Rightarrow> py_error + int list" where
  "lst_edge M p i (k, j) lst =
     (if k = i then
        (case max_over_modes M p j of
           Inl e \<Rightarrow> Inl e
         | Inr d \<Rightarrow>
             (if j < length lst then Inr (lst[i := max (lst ! j + d) (lst ! i)])
              else Inl IndexError))
      else Inr lst)"

fun lst_edges :: "nat \<Rightarrow> int list list \<Rightarrow> nat \<Rightarrow> (nat \<times> nat) list \<Rightarrow> int list \<Rightarrow> py_error + int list" where
  "lst_edges M p i [] lst = Inr lst"
| "lst_edges M p i (e # es) lst =
     (case lst_edge M p i e lst of Inl x \<Rightarrow> Inl x | Inr lst' \<Rightarrow> lst_edges M p i es lst')"

fun lst_loop :: "nat \<Rightarrow> (nat \<times> nat) list \<Rightarrow> int list list \<Rightarrow> nat list \<Rightarrow> int list \<Rightarrow> py_error + int list" where
  "lst_loop M E p [] lst = Inr lst"
| "lst_loop M E p (i # is) lst =
     (case lst_edges M p i E lst of Inl x \<Rightarrow> Inl x | Inr lst' \<Rightarrow> lst_loop M E p is lst')"

text \<open>
  \<open>range(n-1, 0, -1)\<close> is \<open>n-1, ..., 1\<close>; the list is reversed before it is returned.
\<close>

definition get_latest_start_time :: "nat \<Rightarrow> nat \<Rightarrow> (nat \<times> nat) list \<Rightarrow> int list list \<Rightarrow> py_error + int list" where
  "get_latest_start_time n M E p =
     (if n = 0 then Inl IndexError
      else (case lst_loop M E p (rev [1..<n]) ((replicate n (- 1))[n - 1 := 0]) of
              Inl x \<Rightarrow> Inl x
            | Inr lst \<Rightarrow> Inr (rev lst)))"

section \<open>Well-shaped instances\<close>

text \<open>
  The shape the instance format promises: at least one activity and one mode, a duration
  table of \<open>n\<close> rows of \<open>M\<close> entries, and edges between existing activities. No
  condition on the edge relation itself is part of it.
\<close>

definition well_shaped :: "nat \<Rightarrow> nat \<Rightarrow> (nat \<times> nat) list \<Rightarrow> int list list \<Rightarrow> bool" where
  "well_shaped n M E p \<longleftrightarrow>
     0 < n \<and> 0 < M \<and> length p = n \<and> (\<forall>row \<in> set p. length row = M) \<and>
     (\<forall>(i, j) \<in> set E. i < n \<and> j < n)"

text \<open>The fastest duration of activity \<open>i\<close>: the minimum of \<open>p[i][m]\<close> over the modes.\<close>

definition min_duration :: "nat \<Rightarrow> int list list \<Rightarrow> nat \<Rightarrow> int" where
  "min_duration M p i = Min (set (take M (p ! i)))"

text \<open>Topological numbering: every edge leads from a lower to a higher index.\<close>

definition topologically_numbered :: "(nat \<times> nat) list \<Rightarrow> bool" where
  "topologically_numbered E \<longleftrightarrow> (\<forall>(i, j) \<in> set E. i < j)"

section \<open>Duration tables as objects\<close>

text \<open>
  The table \<open>p\<close> is a Python list of lists: a list of references to row objects, and two
  entries of it may refer to one and the same row object. A table is therefore the list of
  the row addresses together with the store of the row objects, address \<open>a\<close> naming the
  \<open>a\<close>-th object of the store. What \<open>p[i][j]\<close> reads is the value of the table.
\<close>

type_synonym table = "nat list \<times> int list list"

definition table_value :: "table \<Rightarrow> int list list" where
  "table_value tb = map (\<lambda>a. snd tb ! a) (fst tb)"

text \<open>
  \<open>json.load\<close> builds one row object for every row of the file, and \<open>copy.deepcopy\<close> of
  its result does the same.
\<close>

definition loaded :: "int list list \<Rightarrow> table" where
  "loaded p = ([0..<length p], p)"

text \<open>No row object occurs twice in the table (and every address names an object).\<close>

definition distinct_rows :: "table \<Rightarrow> bool" where
  "distinct_rows tb \<longleftrightarrow> distinct (fst tb) \<and> (\<forall>a \<in> set (fst tb). a < length (snd tb))"

section \<open>Instances and the derived pair set\<close>

text \<open>
  The arguments of a builder: the dictionary that a caller loads and passes field by field.
  Resource capacities and requirements are integers; the duration table is passed as the
  object it is.
\<close>

record rcpsp =
  inst_n :: nat
  inst_T :: int
  inst_M :: nat
  inst_R :: "int list"
  inst_E :: "(nat \<times> nat) list"
  inst_p :: table
  inst_L :: "(nat \<times> nat) list"
  inst_r :: "int list list list"

text \<open>
  The comprehension of \<open>test_models\<close> and of the main block of continuous.py:
  \<^verbatim>\<open>[[i,j] for i in range(n) for j in range(n)
     if [i,j] not in E and [j,i] not in E and i != j]\<close>
\<close>

definition VP :: "nat \<Rightarrow> (nat \<times> nat) list \<Rightarrow> (nat \<times> nat) list" where
  "VP n E = [(i, j). i \<leftarrow> [0..<n], j \<leftarrow> [0..<n], (i, j) \<notin> set E \<and> (j, i) \<notin> set E \<and> i \<noteq> j]"

definition exactly_one :: "bool \<Rightarrow> bool \<Rightarrow> bool \<Rightarrow> bool" where
  "exactly_one a b c \<longleftrightarrow> (a \<and> \<not> b \<and> \<not> c) \<or> (b \<and> \<not> a \<and> \<not> c) \<or> (c \<and> \<not> a \<and> \<not> b)"

section \<open>Time normalization\<close>

text \<open>
  Every builder opens with the same block:
  \<^verbatim>\<open>unique_processing_times = list(set([i for job in p for i in job]))
  unique_processing_times.append(T)
  divisor = gcd(*unique_processing_times)
  for i in range(len(p)):
      for j in range(len(p[i])):
          p[i][j] = p[i][j] // divisor
  T = T // divisor\<close>
  \<open>math.gcd\<close> of several arguments folds the binary gcd, starting from 0; its value does
  not depend on the order in which the set is listed.
\<close>

definition py_gcd :: "int list \<Rightarrow> int" where
  "py_gcd xs = fold gcd xs 0"

definition unique_processing_times :: "int list list \<Rightarrow> int \<Rightarrow> int list" where
  "unique_processing_times p T = remdups (concat p) @ [T]"

text \<open>
  The inner loop, run on the row object at address \<open>a\<close>: every cell of that object is
  replaced by its floor quotient.
\<close>

definition divide_row :: "int \<Rightarrow> nat \<Rightarrow> int list list \<Rightarrow> int list list" where
  "divide_row divisor a store = store[a := map (\<lambda>v. v div divisor) (store ! a)]"

text \<open>
  The outer loop visits the entries of \<open>p\<close> in order and divides the object each one refers
  to: an object that two entries share is divided at both visits.
\<close>

definition divide_rows :: "int \<Rightarrow> nat list \<Rightarrow> int list list \<Rightarrow> int list list" where
  "divide_rows divisor rows store = fold (divide_row divisor) rows store"

text \<open>
  The block writes into the row objects of the table that the caller passed, and rebinds
  its own local \<open>T\<close>; an integer is immutable, so the caller's \<open>T\<close> is out of its reach.
  The first component of the result is the caller's table when control leaves the block,
  normally or by an exception; the second is the exception, or the local \<open>T\<close> and the
  divisor. With a zero divisor the first division raises before anything is written.
\<close>

definition normalize_processing_times :: "table \<Rightarrow> int \<Rightarrow> table \<times> (py_error + int \<times> int)" where
  "normalize_processing_times tb T =
     (let divisor = py_gcd (unique_processing_times (table_value tb) T) in
      if divisor = 0 then (tb, Inl ZeroDivisionError)
      else ((fst tb, divide_rows divisor (fst tb) (snd tb)), Inr (T div divisor, divisor)))"

section \<open>The vocabulary of a model\<close>

text \<open>
  What a builder hands to the solver: variables, each with a type, linear constraints and a
  linear objective to minimise. A variable is named by its family and its index tuple; a
  linear expression is a list of terms and a constant. Coefficients are rationals (the
  on-off builder divides by durations).
\<close>

datatype var = Var string "int list"

datatype vtype = BINARY | CONTINUOUS

type_synonym linexpr = "(rat \<times> var) list \<times> rat"

definition lin_var :: "var \<Rightarrow> linexpr" where
  "lin_var v = ([(1, v)], 0)"

definition lin_const :: "rat \<Rightarrow> linexpr" where
  "lin_const c = ([], c)"

definition lin_add :: "linexpr \<Rightarrow> linexpr \<Rightarrow> linexpr" where
  "lin_add a b = (fst a @ fst b, snd a + snd b)"

definition lin_scale :: "rat \<Rightarrow> linexpr \<Rightarrow> linexpr" where
  "lin_scale c a = (map (\<lambda>(k, v). (c * k, v)) (fst a), c * snd a)"

definition lin_sub :: "linexpr \<Rightarrow> linexpr \<Rightarrow> linexpr" where
  "lin_sub a b = lin_add a (lin_scale (- 1) b)"

definition quicksum :: "linexpr list \<Rightarrow> linexpr" where
  "quicksum es = (concat (map fst es), sum_list (map snd es))"

datatype sense = LE | GE | EQ

datatype constr = Constr linexpr sense linexpr

record model =
  model_name :: string
  variables :: "(var \<times> vtype) list"
  objective :: linexpr
  constraints :: "(string \<times> constr) list"

text \<open>Sequencing of computations that may raise; a generator consumed to its end.\<close>

definition py_bind :: "py_error + 'a \<Rightarrow> ('a \<Rightarrow> py_error + 'b) \<Rightarrow> py_error + 'b" where
  "py_bind x f = (case x of Inl e \<Rightarrow> Inl e | Inr v \<Rightarrow> f v)"

fun for_each :: "('a \<Rightarrow> py_error + 'b) \<Rightarrow> 'a list \<Rightarrow> py_error + 'b list" where
  "for_each f [] = Inr []"
| "for_each f (x # xs) =
     py_bind (f x) (\<lambda>y. py_bind (for_each f xs) (\<lambda>ys. Inr (y # ys)))"

definition quicksum_of :: "('a \<Rightarrow> py_error + linexpr) \<Rightarrow> 'a list \<Rightarrow> py_error + linexpr" where
  "quicksum_of f xs = py_bind (for_each f xs) (\<lambda>es. Inr (quicksum es))"

text \<open>\<open>range(a, b)\<close> over the integers.\<close>

definition py_range :: "int \<Rightarrow> int \<Rightarrow> int list" where
  "py_range a b = [a..b - 1]"

text \<open>\<open>p[i][m]\<close> and \<open>r[i][m][k]\<close>.\<close>

definition p_at :: "int list list \<Rightarrow> nat \<Rightarrow> nat \<Rightarrow> py_error + int" where
  "p_at p i m = py_bind (py_index p i) (\<lambda>row. py_index row m)"

definition r_at :: "int list list list \<Rightarrow> nat \<Rightarrow> nat \<Rightarrow> nat \<Rightarrow> py_error + int" where
  "r_at r i m k = py_bind (py_index r i) (\<lambda>a. py_bind (py_index a m) (\<lambda>b. py_index b k))"

text \<open>
  \<open>model.addVars(keys, vtype=..., name=...)\<close> returns a dictionary from index tuples to
  variables; reading a tuple that is not a key raises KeyError.
\<close>

type_synonym tupledict = "string \<times> int list list"

definition addVars :: "string \<Rightarrow> int list list \<Rightarrow> tupledict" where
  "addVars name keys = (name, keys)"

definition getvar :: "tupledict \<Rightarrow> int list \<Rightarrow> py_error + var" where
  "getvar d key = (if key \<in> set (snd d) then Inr (Var (fst d) key) else Inl KeyError)"

definition declared :: "vtype \<Rightarrow> tupledict \<Rightarrow> (var \<times> vtype) list" where
  "declared ty d = [(Var (fst d) key, ty). key \<leftarrow> snd d]"

text \<open>The term \<open>c * d[key]\<close>.\<close>

definition term_of :: "rat \<Rightarrow> tupledict \<Rightarrow> int list \<Rightarrow> py_error + linexpr" where
  "term_of c d key = py_bind (getvar d key) (\<lambda>v. Inr (lin_scale c (lin_var v)))"

definition tagged :: "string \<Rightarrow> constr list \<Rightarrow> (string \<times> constr) list" where
  "tagged name cs = map (Pair name) cs"

text \<open>The index sets \<open>[(i, m, t) for i in range(n) for m in range(M) for t in range(T)]\<close>
  and \<open>[(i, j) for i in range(n) for j in range(n)]\<close>.\<close>

definition step_sets :: "nat \<Rightarrow> nat \<Rightarrow> int \<Rightarrow> int list list" where
  "step_sets n M T = [[int i, int m, t]. i \<leftarrow> [0..<n], m \<leftarrow> [0..<M], t \<leftarrow> py_range 0 T]"

definition pair_sets :: "nat \<Rightarrow> int list list" where
  "pair_sets n = [[int i, int j]. i \<leftarrow> [0..<n], j \<leftarrow> [0..<n]]"

section \<open>The opening shared by all builders\<close>

text \<open>
  After the normalization block every builder computes the two lists of starting times from
  the rescaled table, and at its end returns the model with the divisor. \<open>build\<close> is that
  frame around the part in which the builders differ. The first component of its result is
  the value of the caller's duration table after the call.
\<close>

definition build ::
  "(rcpsp \<Rightarrow> int list list \<Rightarrow> int \<Rightarrow> int list \<Rightarrow> py_error + model) \<Rightarrow> rcpsp \<Rightarrow>
     int list list \<times> (py_error + model \<times> int)" where
  "build body inst =
     (case normalize_processing_times (inst_p inst) (inst_T inst) of
        (tb, Inl e) \<Rightarrow> (table_value tb, Inl e)
      | (tb, Inr (T, divisor)) \<Rightarrow>
          (table_value tb,
           py_bind (get_earliest_start_time (inst_n inst) (inst_M inst) (inst_E inst)
                      (table_value tb)) (\<lambda>est.
           py_bind (get_latest_start_time (inst_n inst) (inst_M inst) (inst_E inst)
                      (table_value tb)) (\<lambda>lst.
           py_bind (body inst (table_value tb) T est) (\<lambda>mdl. Inr (mdl, divisor))))))"

section \<open>pulse.py\<close>

text \<open>\<open>quicksum(t * x[n-1, m, t] for t in range(T) for m in range(M))\<close>\<close>

definition pulse_objective :: "tupledict \<Rightarrow> nat \<Rightarrow> nat \<Rightarrow> int \<Rightarrow> py_error + linexpr" where
  "pulse_objective x n M T =
     quicksum_of (\<lambda>(t, m). term_of (of_int t) x [int n - 1, int m, t])
       [(t, m). t \<leftarrow> py_range 0 T, m \<leftarrow> [0..<M]]"

text \<open>\<open>x.sum(i, "*", "*") == 1 for i in range(n)\<close>: the sum of the variables whose key
  starts with \<open>i\<close>.\<close>

definition tupledict_sum :: "tupledict \<Rightarrow> int \<Rightarrow> linexpr" where
  "tupledict_sum d i = quicksum [lin_var (Var (fst d) key). key \<leftarrow> snd d, take 1 key = [i]]"

definition pulse_schedule :: "tupledict \<Rightarrow> nat \<Rightarrow> constr list" where
  "pulse_schedule x n = [Constr (tupledict_sum x (int i)) EQ (lin_const 1). i \<leftarrow> [0..<n]]"

text \<open>
  \<^verbatim>\<open>quicksum((t + p[i][m]) * x[i, m, t] for m in range(M) for t in range(T)) <=
  quicksum(t * x[j, m, t] for m in range(M) for t in range(T))   for i,j in E\<close>
\<close>

definition pulse_precedence ::
  "tupledict \<Rightarrow> nat \<Rightarrow> int \<Rightarrow> int list list \<Rightarrow> (nat \<times> nat) list \<Rightarrow> py_error + constr list" where
  "pulse_precedence x M T p E =
     for_each (\<lambda>(i, j).
       py_bind (quicksum_of (\<lambda>(m, t).
                  py_bind (p_at p i m) (\<lambda>d. term_of (of_int (t + d)) x [int i, int m, t]))
                  [(m, t). m \<leftarrow> [0..<M], t \<leftarrow> py_range 0 T]) (\<lambda>lhs.
       py_bind (quicksum_of (\<lambda>(m, t). term_of (of_int t) x [int j, int m, t])
                  [(m, t). m \<leftarrow> [0..<M], t \<leftarrow> py_range 0 T]) (\<lambda>rhs.
       Inr (Constr lhs LE rhs)))) E"

text \<open>
  \<^verbatim>\<open>quicksum(quicksum(r[i][m][k] * x[i, m, tau]
                    for tau in range(max(t-p[i][m]+1, 0), t+1))
           for m in range(M) for i in range(n)) <= R[k]
  for t in range(T) for k in range(len(R))\<close>
\<close>

definition pulse_resource ::
  "tupledict \<Rightarrow> nat \<Rightarrow> nat \<Rightarrow> int \<Rightarrow> int list \<Rightarrow> int list list \<Rightarrow> int list list list \<Rightarrow>
     py_error + constr list" where
  "pulse_resource x n M T R p r =
     for_each (\<lambda>(t, k).
       py_bind (quicksum_of (\<lambda>(m, i).
                  py_bind (p_at p i m) (\<lambda>d.
                  quicksum_of (\<lambda>tau.
                    py_bind (r_at r i m k) (\<lambda>c. term_of (of_int c) x [int i, int m, tau]))
                    (py_range (max (t - d + 1) 0) (t + 1))))
                  [(m, i). m \<leftarrow> [0..<M], i \<leftarrow> [0..<n]]) (\<lambda>lhs.
       Inr (Constr lhs LE (lin_const (of_int (R ! k))))))
       [(t, k). t \<leftarrow> py_range 0 T, k \<leftarrow> [0..<length R]]"

text \<open>
  \<^verbatim>\<open>quicksum(x[i, m, t] for t in range(T)) <= quicksum(x[j, m, t] for t in range(T))
  for i,j in L for m in range(M)\<close>
\<close>

definition pulse_linked ::
  "tupledict \<Rightarrow> nat \<Rightarrow> int \<Rightarrow> (nat \<times> nat) list \<Rightarrow> py_error + constr list" where
  "pulse_linked x M T L =
     for_each (\<lambda>((i, j), m).
       py_bind (quicksum_of (\<lambda>t. term_of 1 x [int i, int m, t]) (py_range 0 T)) (\<lambda>lhs.
       py_bind (quicksum_of (\<lambda>t. term_of 1 x [int j, int m, t]) (py_range 0 T)) (\<lambda>rhs.
       Inr (Constr lhs LE rhs))))
       [((i, j), m). (i, j) \<leftarrow> L, m \<leftarrow> [0..<M]]"

text \<open>
  \<^verbatim>\<open>x[i, m, t] == 0 for i in range(n) for m in range(M)
                  for t in range(earliest_starting_times[i])\<close>
  The family every discrete-time builder adds last, on its own variable dictionary.
\<close>

definition zero_time_slots ::
  "tupledict \<Rightarrow> nat \<Rightarrow> nat \<Rightarrow> int list \<Rightarrow> py_error + constr list" where
  "zero_time_slots x n M est =
     for_each (\<lambda>(i, m, t).
       py_bind (getvar x [int i, int m, t]) (\<lambda>v. Inr (Constr (lin_var v) EQ (lin_const 0))))
       [(i, m, t). i \<leftarrow> [0..<n], m \<leftarrow> [0..<M], t \<leftarrow> py_range 0 (est ! i)]"

definition pulse_body :: "rcpsp \<Rightarrow> int list list \<Rightarrow> int \<Rightarrow> int list \<Rightarrow> py_error + model" where
  "pulse_body inst p T est =
     (let n = inst_n inst; M = inst_M inst;
          x = addVars ''pulse'' (step_sets n M T) in
      py_bind (pulse_objective x n M T) (\<lambda>obj.
      py_bind (pulse_precedence x M T p (inst_E inst)) (\<lambda>prec.
      py_bind (pulse_resource x n M T (inst_R inst) p (inst_r inst)) (\<lambda>res.
      py_bind (pulse_linked x M T (inst_L inst)) (\<lambda>lnk.
      py_bind (zero_time_slots x n M est) (\<lambda>zts.
      Inr \<lparr>model_name = ''pulse'',
           variables = declared BINARY x,
           objective = obj,
           constraints =
             tagged ''schedule'' (pulse_schedule x n) @ tagged ''precedence'' prec @
             tagged ''resource'' res @ tagged ''linked'' lnk @
             tagged ''zero_time_slots'' zts\<rparr>))))))"

definition pulse_model :: "rcpsp \<Rightarrow> (nat \<times> nat) list \<Rightarrow> int list list \<times> (py_error + model \<times> int)" where
  "pulse_model inst VP' = build pulse_body inst"

text \<open>
  The disaggregated precedence family of pulse.py:
  \<^verbatim>\<open>quicksum(x[i, m, tau] for m in range(M) for tau in range(t-p[i][m]+1)) >=
  quicksum(x[j, m, tau] for m in range(M) for tau in range(t+1))
  for i,j in E for t in range(T)\<close>
\<close>

definition pulse_precedence_disaggregated ::
  "tupledict \<Rightarrow> nat \<Rightarrow> int \<Rightarrow> int list list \<Rightarrow> (nat \<times> nat) list \<Rightarrow> py_error + constr list" where
  "pulse_precedence_disaggregated x M T p E =
     for_each (\<lambda>((i, j), t).
       py_bind (quicksum_of (\<lambda>m.
                  py_bind (p_at p i m) (\<lambda>d.
                  quicksum_of (\<lambda>tau. term_of 1 x [int i, int m, tau]) (py_range 0 (t - d + 1))))
                  [0..<M]) (\<lambda>lhs.
       py_bind (quicksum_of (\<lambda>(m, tau). term_of 1 x [int j, int m, tau])
                  [(m, tau). m \<leftarrow> [0..<M], tau \<leftarrow> py_range 0 (t + 1)]) (\<lambda>rhs.
       Inr (Constr lhs GE rhs))))
       [((i, j), t). (i, j) \<leftarrow> E, t \<leftarrow> py_range 0 T]"

definition pulse_disaggregated_body :: "rcpsp \<Rightarrow> int list list \<Rightarrow> int \<Rightarrow> int list \<Rightarrow> py_error + model" where
  "pulse_disaggregated_body inst p T est =
     (let n = inst_n inst; M = inst_M inst;
          x = addVars ''pulse'' (step_sets n M T) in
      py_bind (pulse_objective x n M T) (\<lambda>obj.
      py_bind (pulse_precedence_disaggregated x M T p (inst_E inst)) (\<lambda>prec.
      py_bind (pulse_resource x n M T (inst_R inst) p (inst_r inst)) (\<lambda>res.
      py_bind (pulse_linked x M T (inst_L inst)) (\<lambda>lnk.
      py_bind (zero_time_slots x n M est) (\<lambda>zts.
      Inr \<lparr>model_name = ''pulse_disaggregated'',
           variables = declared BINARY x,
           objective = obj,
           constraints =
             tagged ''schedule'' (pulse_schedule x n) @ tagged ''precedence'' prec @
             tagged ''resource'' res @ tagged ''linked'' lnk @
             tagged ''zero_time_slots'' zts\<rparr>))))))"

definition pulse_model_disaggregated ::
  "rcpsp \<Rightarrow> (nat \<times> nat) list \<Rightarrow> int list list \<times> (py_error + model \<times> int)" where
  "pulse_model_disaggregated inst VP' = build pulse_disaggregated_body inst"

section \<open>onoff_pulse.py\<close>

text \<open>
  \<^verbatim>\<open>y[i, m, t] == quicksum(x[i, m, tau] for tau in range(max(t - p[i][m] + 1, 0), t+1))
  for i in range(n) for t in range(T) for m in range(M)\<close>
\<close>

definition connect_pulse_onoff ::
  "tupledict \<Rightarrow> tupledict \<Rightarrow> nat \<Rightarrow> nat \<Rightarrow> int \<Rightarrow> int list list \<Rightarrow> py_error + constr list" where
  "connect_pulse_onoff x y n M T p =
     for_each (\<lambda>(i, t, m).
       py_bind (term_of 1 y [int i, int m, t]) (\<lambda>lhs.
       py_bind (p_at p i m) (\<lambda>d.
       py_bind (quicksum_of (\<lambda>tau. term_of 1 x [int i, int m, tau])
                  (py_range (max (t - d + 1) 0) (t + 1))) (\<lambda>rhs.
       Inr (Constr lhs EQ rhs)))))
       [(i, t, m). i \<leftarrow> [0..<n], t \<leftarrow> py_range 0 T, m \<leftarrow> [0..<M]]"

text \<open>
  \<^verbatim>\<open>quicksum(y[i, m, t] for t in range(T)) == quicksum(p[i][m] * x[i, m, t] for t in range(T))
  for i in range(n) for m in range(M)\<close>
\<close>

definition connect_pulse_onoff_processing_time ::
  "tupledict \<Rightarrow> tupledict \<Rightarrow> nat \<Rightarrow> nat \<Rightarrow> int \<Rightarrow> int list list \<Rightarrow> py_error + constr list" where
  "connect_pulse_onoff_processing_time x y n M T p =
     for_each (\<lambda>(i, m).
       py_bind (quicksum_of (\<lambda>t. term_of 1 y [int i, int m, t]) (py_range 0 T)) (\<lambda>lhs.
       py_bind (quicksum_of (\<lambda>t.
                  py_bind (p_at p i m) (\<lambda>d. term_of (of_int d) x [int i, int m, t]))
                  (py_range 0 T)) (\<lambda>rhs.
       Inr (Constr lhs EQ rhs))))
       [(i, m). i \<leftarrow> [0..<n], m \<leftarrow> [0..<M]]"

definition onoff_pulse_body ::
  "bool \<Rightarrow> rcpsp \<Rightarrow> int list list \<Rightarrow> int \<Rightarrow> int list \<Rightarrow> py_error + model" where
  "onoff_pulse_body disaggregated inst p T est =
     (let n = inst_n inst; M = inst_M inst;
          x = addVars ''pulse'' (step_sets n M T);
          y = addVars ''onoff'' (step_sets n M T) in
      py_bind (pulse_objective x n M T) (\<lambda>obj.
      py_bind (connect_pulse_onoff x y n M T p) (\<lambda>con.
      py_bind (connect_pulse_onoff_processing_time x y n M T p) (\<lambda>conp.
      py_bind (if disaggregated then pulse_precedence_disaggregated x M T p (inst_E inst)
               else pulse_precedence x M T p (inst_E inst)) (\<lambda>prec.
      py_bind (pulse_resource x n M T (inst_R inst) p (inst_r inst)) (\<lambda>res.
      py_bind (pulse_linked x M T (inst_L inst)) (\<lambda>lnk.
      py_bind (zero_time_slots x n M est) (\<lambda>zts.
      Inr \<lparr>model_name = ''onoff_pulse'',
           variables = declared BINARY x @ declared BINARY y,
           objective = obj,
           constraints =
             tagged ''schedule'' (pulse_schedule x n) @
             tagged ''connect_pulse_onoff'' con @
             tagged ''connect_pulse_onoff_processing_time'' conp @
             tagged ''precedence'' prec @
             tagged ''resource'' res @ tagged ''linked'' lnk @
             tagged ''zero_time_slots'' zts\<rparr>))))))))"

text \<open>The two builders of onoff_pulse.py differ in the precedence family only.\<close>

definition onoff_pulse_model ::
  "rcpsp \<Rightarrow> (nat \<times> nat) list \<Rightarrow> int list list \<times> (py_error + model \<times> int)" where
  "onoff_pulse_model inst VP' = build (onoff_pulse_body False) inst"

definition onoff_pulse_model_disaggregated ::
  "rcpsp \<Rightarrow> (nat \<times> nat) list \<Rightarrow> int list list \<times> (py_error + model \<times> int)" where
  "onoff_pulse_model_disaggregated inst VP' = build (onoff_pulse_body True) inst"

section \<open>onoff.py\<close>

text \<open>\<open>quicksum(t * y[n-1, m, t] for t in range(1,T) for m in range(M))\<close>\<close>

definition onoff_objective :: "tupledict \<Rightarrow> nat \<Rightarrow> nat \<Rightarrow> int \<Rightarrow> py_error + linexpr" where
  "onoff_objective y n M T =
     quicksum_of (\<lambda>(t, m). term_of (of_int t) y [int n - 1, int m, t])
       [(t, m). t \<leftarrow> py_range 1 T, m \<leftarrow> [0..<M]]"

text \<open>
  \<^verbatim>\<open>quicksum(y[i, m, t]/p[i][m] if p[i][m] > 0 else y[i, m, t]
           for m in range(M) for t in range(T)) == 1   for i in range(1,n-1)\<close>
  A duration that is not positive takes the second branch: the variable enters the sum with
  coefficient 1.
\<close>

definition onoff_schedule ::
  "tupledict \<Rightarrow> nat \<Rightarrow> nat \<Rightarrow> int \<Rightarrow> int list list \<Rightarrow> py_error + constr list" where
  "onoff_schedule y n M T p =
     for_each (\<lambda>i.
       py_bind (quicksum_of (\<lambda>(m, t).
                  py_bind (p_at p i m) (\<lambda>d.
                  if d > 0 then term_of (1 / of_int d) y [int i, int m, t]
                  else term_of 1 y [int i, int m, t]))
                  [(m, t). m \<leftarrow> [0..<M], t \<leftarrow> py_range 0 T]) (\<lambda>lhs.
       Inr (Constr lhs EQ (lin_const 1)))) [1..<n - 1]"

text \<open>
  \<open>quicksum(y[0, m, t] for m in range(M) for t in range(T)) == 1\<close>, and the same for
  \<open>n-1\<close>.
\<close>

definition onoff_schedule_dummy :: "tupledict \<Rightarrow> int \<Rightarrow> nat \<Rightarrow> int \<Rightarrow> py_error + constr" where
  "onoff_schedule_dummy y i M T =
     py_bind (quicksum_of (\<lambda>(m, t). term_of 1 y [i, int m, t])
                [(m, t). m \<leftarrow> [0..<M], t \<leftarrow> py_range 0 T]) (\<lambda>lhs.
     Inr (Constr lhs EQ (lin_const 1)))"

text \<open>
  \<^verbatim>\<open>p[i][m] * (y[i, m, t] - y[i, m, t+1])
    - quicksum(y[i, m, tau] for tau in range(max(t - p[i][m]+1, 0), t)) <= 1
  for i in range(n) for m in range(M) for t in range(T-1)\<close>
\<close>

definition onoff_started_same_mode ::
  "tupledict \<Rightarrow> nat \<Rightarrow> nat \<Rightarrow> int \<Rightarrow> int list list \<Rightarrow> py_error + constr list" where
  "onoff_started_same_mode y n M T p =
     for_each (\<lambda>(i, m, t).
       py_bind (p_at p i m) (\<lambda>d.
       py_bind (term_of 1 y [int i, int m, t]) (\<lambda>yt.
       py_bind (term_of 1 y [int i, int m, t + 1]) (\<lambda>yt1.
       py_bind (quicksum_of (\<lambda>tau. term_of 1 y [int i, int m, tau])
                  (py_range (max (t - d + 1) 0) t)) (\<lambda>earlier.
       Inr (Constr (lin_sub (lin_scale (of_int d) (lin_sub yt yt1)) earlier) LE (lin_const 1)))))))
       [(i, m, t). i \<leftarrow> [0..<n], m \<leftarrow> [0..<M], t \<leftarrow> py_range 0 (T - 1)]"

text \<open>
  \<^verbatim>\<open>quicksum(y[i, m, tau]/max(p[i][m], 1)
           for m in range(M) for tau in range(t + 1 - min(p[i][m], 1)))
    >= quicksum(y[j, m, t] for m in range(M))   for i,j in E for t in range(T)\<close>
\<close>

definition onoff_precedence ::
  "tupledict \<Rightarrow> nat \<Rightarrow> int \<Rightarrow> int list list \<Rightarrow> (nat \<times> nat) list \<Rightarrow> py_error + constr list" where
  "onoff_precedence y M T p E =
     for_each (\<lambda>((i, j), t).
       py_bind (quicksum_of (\<lambda>m.
                  py_bind (p_at p i m) (\<lambda>d.
                  quicksum_of (\<lambda>tau. term_of (1 / of_int (max d 1)) y [int i, int m, tau])
                    (py_range 0 (t + 1 - min d 1))))
                  [0..<M]) (\<lambda>lhs.
       py_bind (quicksum_of (\<lambda>m. term_of 1 y [int j, int m, t]) [0..<M]) (\<lambda>rhs.
       Inr (Constr lhs GE rhs))))
       [((i, j), t). (i, j) \<leftarrow> E, t \<leftarrow> py_range 0 T]"

text \<open>
  \<^verbatim>\<open>quicksum(r[i][m][k] * y[i, m, t] for i in range(n) for m in range(M)) <= R[k]
  for t in range(T) for k in range(len(R))\<close>
\<close>

definition onoff_resource ::
  "tupledict \<Rightarrow> nat \<Rightarrow> nat \<Rightarrow> int \<Rightarrow> int list \<Rightarrow> int list list list \<Rightarrow> py_error + constr list" where
  "onoff_resource y n M T R r =
     for_each (\<lambda>(t, k).
       py_bind (quicksum_of (\<lambda>(i, m).
                  py_bind (r_at r i m k) (\<lambda>c. term_of (of_int c) y [int i, int m, t]))
                  [(i, m). i \<leftarrow> [0..<n], m \<leftarrow> [0..<M]]) (\<lambda>lhs.
       Inr (Constr lhs LE (lin_const (of_int (R ! k))))))
       [(t, k). t \<leftarrow> py_range 0 T, k \<leftarrow> [0..<length R]]"

text \<open>
  \<^verbatim>\<open>quicksum(y[i, m, t]/max(p[i][m],1) for t in range(T)) ==
  quicksum(y[j, m, t]/max(p[j][m],1) for t in range(T))   for i,j in L for m in range(M)\<close>
\<close>

definition onoff_linked ::
  "tupledict \<Rightarrow> nat \<Rightarrow> int \<Rightarrow> int list list \<Rightarrow> (nat \<times> nat) list \<Rightarrow> py_error + constr list" where
  "onoff_linked y M T p L =
     for_each (\<lambda>((i, j), m).
       py_bind (quicksum_of (\<lambda>t.
                  py_bind (getvar y [int i, int m, t]) (\<lambda>v.
                  py_bind (p_at p i m) (\<lambda>d.
                  Inr (lin_scale (1 / of_int (max d 1)) (lin_var v)))))
                  (py_range 0 T)) (\<lambda>lhs.
       py_bind (quicksum_of (\<lambda>t.
                  py_bind (getvar y [int j, int m, t]) (\<lambda>v.
                  py_bind (p_at p j m) (\<lambda>d.
                  Inr (lin_scale (1 / of_int (max d 1)) (lin_var v)))))
                  (py_range 0 T)) (\<lambda>rhs.
       Inr (Constr lhs EQ rhs))))
       [((i, j), m). (i, j) \<leftarrow> L, m \<leftarrow> [0..<M]]"

definition onoff_body :: "rcpsp \<Rightarrow> int list list \<Rightarrow> int \<Rightarrow> int list \<Rightarrow> py_error + model" where
  "onoff_body inst p T est =
     (let n = inst_n inst; M = inst_M inst;
          y = addVars ''onoff'' (step_sets n M T) in
      py_bind (onoff_objective y n M T) (\<lambda>obj.
      py_bind (onoff_schedule y n M T p) (\<lambda>sched.
      py_bind (onoff_schedule_dummy y 0 M T) (\<lambda>first.
      py_bind (onoff_schedule_dummy y (int n - 1) M T) (\<lambda>last.
      py_bind (onoff_started_same_mode y n M T p) (\<lambda>same.
      py_bind (onoff_precedence y M T p (inst_E inst)) (\<lambda>prec.
      py_bind (onoff_resource y n M T (inst_R inst) (inst_r inst)) (\<lambda>res.
      py_bind (onoff_linked y M T p (inst_L inst)) (\<lambda>lnk.
      py_bind (zero_time_slots y n M est) (\<lambda>zts.
      Inr \<lparr>model_name = ''onoff'',
           variables = declared BINARY y,
           objective = obj,
           constraints =
             tagged ''schedule'' sched @ tagged ''schedule_first'' [first] @
             tagged ''schedule_last'' [last] @ tagged ''started_same_mode'' same @
             tagged ''precedence'' prec @ tagged ''resource'' res @
             tagged ''linked'' lnk @ tagged ''zero_time_slots'' zts\<rparr>))))))))))"

definition onoff_model :: "rcpsp \<Rightarrow> (nat \<times> nat) list \<Rightarrow> int list list \<times> (py_error + model \<times> int)" where
  "onoff_model inst VP' = build onoff_body inst"

section \<open>step.py\<close>

text \<open>The difference \<open>z[i, m, t] - z[i, m, t-1]\<close>.\<close>

definition step_increment :: "tupledict \<Rightarrow> int \<Rightarrow> nat \<Rightarrow> int \<Rightarrow> py_error + linexpr" where
  "step_increment z i m t =
     py_bind (term_of 1 z [i, int m, t]) (\<lambda>zt.
     py_bind (term_of 1 z [i, int m, t - 1]) (\<lambda>zp.
     Inr (lin_sub zt zp)))"

text \<open>The difference \<open>z[i, m, t] - (z[i, m, t-1] if t-1>=0 else 0)\<close>.\<close>

definition step_increment_guarded :: "tupledict \<Rightarrow> int \<Rightarrow> nat \<Rightarrow> int \<Rightarrow> py_error + linexpr" where
  "step_increment_guarded z i m t =
     py_bind (term_of 1 z [i, int m, t]) (\<lambda>zt.
     py_bind (if t - 1 \<ge> 0 then term_of 1 z [i, int m, t - 1] else Inr (lin_const 0)) (\<lambda>zp.
     Inr (lin_sub zt zp)))"

text \<open>\<open>quicksum(t * (z[n-1, m, t] - z[n-1, m, t-1]) for t in range(1,T) for m in range(M))\<close>\<close>

definition step_objective :: "tupledict \<Rightarrow> nat \<Rightarrow> nat \<Rightarrow> int \<Rightarrow> py_error + linexpr" where
  "step_objective z n M T =
     quicksum_of (\<lambda>(t, m).
       py_bind (step_increment z (int n - 1) m t) (\<lambda>inc. Inr (lin_scale (of_int t) inc)))
       [(t, m). t \<leftarrow> py_range 1 T, m \<leftarrow> [0..<M]]"

text \<open>\<open>quicksum(z[i, m, T-1] for m in range(M)) == 1 for i in range(n)\<close>\<close>

definition step_schedule :: "tupledict \<Rightarrow> nat \<Rightarrow> nat \<Rightarrow> int \<Rightarrow> py_error + constr list" where
  "step_schedule z n M T =
     for_each (\<lambda>i.
       py_bind (quicksum_of (\<lambda>m. term_of 1 z [int i, int m, T - 1]) [0..<M]) (\<lambda>lhs.
       Inr (Constr lhs EQ (lin_const 1)))) [0..<n]"

text \<open>\<open>z[i, m, t-1] <= z[i, m, t] for i in range(n) for m in range(M) for t in range(1, T)\<close>\<close>

definition step_started_same_mode :: "tupledict \<Rightarrow> nat \<Rightarrow> nat \<Rightarrow> int \<Rightarrow> py_error + constr list" where
  "step_started_same_mode z n M T =
     for_each (\<lambda>(i, m, t).
       py_bind (term_of 1 z [int i, int m, t - 1]) (\<lambda>zp.
       py_bind (term_of 1 z [int i, int m, t]) (\<lambda>zt.
       Inr (Constr zp LE zt))))
       [(i, m, t). i \<leftarrow> [0..<n], m \<leftarrow> [0..<M], t \<leftarrow> py_range 1 T]"

text \<open>
  \<^verbatim>\<open>quicksum((t + p[i][m]) * (z[i, m, t] - (z[i, m, t-1] if t-1>=0 else 0))
           for t in range(T) for m in range(M)) <=
  quicksum(t * (z[j, m, t] - (z[j, m, t-1] if t-1>=0 else 0))
           for t in range(T) for m in range(M))   for i,j in E\<close>
\<close>

definition step_precedence ::
  "tupledict \<Rightarrow> nat \<Rightarrow> int \<Rightarrow> int list list \<Rightarrow> (nat \<times> nat) list \<Rightarrow> py_error + constr list" where
  "step_precedence z M T p E =
     for_each (\<lambda>(i, j).
       py_bind (quicksum_of (\<lambda>(t, m).
                  py_bind (p_at p i m) (\<lambda>d.
                  py_bind (step_increment_guarded z (int i) m t) (\<lambda>inc.
                  Inr (lin_scale (of_int (t + d)) inc))))
                  [(t, m). t \<leftarrow> py_range 0 T, m \<leftarrow> [0..<M]]) (\<lambda>lhs.
       py_bind (quicksum_of (\<lambda>(t, m).
                  py_bind (step_increment_guarded z (int j) m t) (\<lambda>inc.
                  Inr (lin_scale (of_int t) inc)))
                  [(t, m). t \<leftarrow> py_range 0 T, m \<leftarrow> [0..<M]]) (\<lambda>rhs.
       Inr (Constr lhs LE rhs)))) E"

text \<open>The term \<open>z[i, m, max(t - p[i][m], 0)] if t-p[i][m]>=0 else 0\<close>.\<close>

definition step_before :: "tupledict \<Rightarrow> int list list \<Rightarrow> nat \<Rightarrow> nat \<Rightarrow> int \<Rightarrow> py_error + linexpr" where
  "step_before z p i m t =
     py_bind (p_at p i m) (\<lambda>d.
     if t - d \<ge> 0 then term_of 1 z [int i, int m, max (t - d) 0] else Inr (lin_const 0))"

text \<open>
  \<^verbatim>\<open>quicksum(z[i, m, max(t - p[i][m], 0)] if t-p[i][m]>=0 else 0 for m in range(M)) >=
  quicksum(z[j, m, t] for m in range(M))   for i,j in E for t in range(1,T)\<close>
\<close>

definition step_precedence_disaggregated ::
  "tupledict \<Rightarrow> nat \<Rightarrow> int \<Rightarrow> int list list \<Rightarrow> (nat \<times> nat) list \<Rightarrow> py_error + constr list" where
  "step_precedence_disaggregated z M T p E =
     for_each (\<lambda>((i, j), t).
       py_bind (quicksum_of (\<lambda>m. step_before z p i m t) [0..<M]) (\<lambda>lhs.
       py_bind (quicksum_of (\<lambda>m. term_of 1 z [int j, int m, t]) [0..<M]) (\<lambda>rhs.
       Inr (Constr lhs GE rhs))))
       [((i, j), t). (i, j) \<leftarrow> E, t \<leftarrow> py_range 1 T]"

text \<open>
  \<^verbatim>\<open>quicksum(r[i][m][k] * (z[i, m, t]
             - (z[i, m, max(t - p[i][m], 0)] if t-p[i][m]>=0 else 0))
           for m in range(M) for i in range(n)) <= R[k]
  for t in range(T) for k in range(len(R))\<close>
\<close>

definition step_resource ::
  "tupledict \<Rightarrow> nat \<Rightarrow> nat \<Rightarrow> int \<Rightarrow> int list \<Rightarrow> int list list \<Rightarrow> int list list list \<Rightarrow>
     py_error + constr list" where
  "step_resource z n M T R p r =
     for_each (\<lambda>(t, k).
       py_bind (quicksum_of (\<lambda>(m, i).
                  py_bind (r_at r i m k) (\<lambda>c.
                  py_bind (term_of 1 z [int i, int m, t]) (\<lambda>zt.
                  py_bind (step_before z p i m t) (\<lambda>zb.
                  Inr (lin_scale (of_int c) (lin_sub zt zb))))))
                  [(m, i). m \<leftarrow> [0..<M], i \<leftarrow> [0..<n]]) (\<lambda>lhs.
       Inr (Constr lhs LE (lin_const (of_int (R ! k))))))
       [(t, k). t \<leftarrow> py_range 0 T, k \<leftarrow> [0..<length R]]"

text \<open>\<open>z[i, m, T-1] == z[j, m, T-1] for i,j in L for m in range(M)\<close>\<close>

definition step_linked :: "tupledict \<Rightarrow> nat \<Rightarrow> int \<Rightarrow> (nat \<times> nat) list \<Rightarrow> py_error + constr list" where
  "step_linked z M T L =
     for_each (\<lambda>((i, j), m).
       py_bind (term_of 1 z [int i, int m, T - 1]) (\<lambda>zi.
       py_bind (term_of 1 z [int j, int m, T - 1]) (\<lambda>zj.
       Inr (Constr zi EQ zj))))
       [((i, j), m). (i, j) \<leftarrow> L, m \<leftarrow> [0..<M]]"

text \<open>
  Both builders of step.py declare \<open>last_dummy\<close> variables that no constraint mentions, name
  the step variables "pulse" and the model "step". They differ in the precedence family and
  its name.
\<close>

definition step_body ::
  "bool \<Rightarrow> rcpsp \<Rightarrow> int list list \<Rightarrow> int \<Rightarrow> int list \<Rightarrow> py_error + model" where
  "step_body disaggregated inst p T est =
     (let n = inst_n inst; M = inst_M inst;
          last_dummy = addVars ''last_dummy'' [[t]. t \<leftarrow> py_range 0 T];
          z = addVars ''pulse'' (step_sets n M T) in
      py_bind (step_objective z n M T) (\<lambda>obj.
      py_bind (step_schedule z n M T) (\<lambda>sched.
      py_bind (step_started_same_mode z n M T) (\<lambda>same.
      py_bind (if disaggregated then step_precedence_disaggregated z M T p (inst_E inst)
               else step_precedence z M T p (inst_E inst)) (\<lambda>prec.
      py_bind (step_resource z n M T (inst_R inst) p (inst_r inst)) (\<lambda>res.
      py_bind (step_linked z M T (inst_L inst)) (\<lambda>lnk.
      py_bind (zero_time_slots z n M est) (\<lambda>zts.
      Inr \<lparr>model_name = ''step'',
           variables = declared BINARY last_dummy @ declared BINARY z,
           objective = obj,
           constraints =
             tagged ''schedule'' sched @ tagged ''started_same_mode'' same @
             tagged (if disaggregated then ''precedence_disaggregated'' else ''precedence'') prec @
             tagged ''resource'' res @ tagged ''linked'' lnk @
             tagged ''earliest_start_times'' zts\<rparr>))))))))"

definition step_model :: "rcpsp \<Rightarrow> (nat \<times> nat) list \<Rightarrow> int list list \<times> (py_error + model \<times> int)" where
  "step_model inst VP' = build (step_body False) inst"

definition step_model_disaggregated ::
  "rcpsp \<Rightarrow> (nat \<times> nat) list \<Rightarrow> int list list \<times> (py_error + model \<times> int)" where
  "step_model_disaggregated inst VP' = build (step_body True) inst"

section \<open>continuous.py\<close>

text \<open>\<open>S[i] >= earliest_starting_times[i] for i in range(n)\<close>\<close>

definition earliest_starting_times :: "tupledict \<Rightarrow> nat \<Rightarrow> int list \<Rightarrow> py_error + constr list" where
  "earliest_starting_times S n est =
     for_each (\<lambda>i.
       py_bind (getvar S [int i]) (\<lambda>v. Inr (Constr (lin_var v) GE (lin_const (of_int (est ! i))))))
       [0..<n]"

text \<open>\<open>quicksum(p[i][m] * x[i, m] for m in range(M))\<close>\<close>

definition chosen_duration :: "tupledict \<Rightarrow> nat \<Rightarrow> int list list \<Rightarrow> nat \<Rightarrow> py_error + linexpr" where
  "chosen_duration x M p i =
     quicksum_of (\<lambda>m. py_bind (p_at p i m) (\<lambda>d. term_of (of_int d) x [int i, int m])) [0..<M]"

text \<open>\<open>quicksum(r[i][m][k] * x[i, m] for m in range(M))\<close>\<close>

definition chosen_requirement ::
  "tupledict \<Rightarrow> nat \<Rightarrow> int list list list \<Rightarrow> nat \<Rightarrow> nat \<Rightarrow> py_error + linexpr" where
  "chosen_requirement x M r i k =
     quicksum_of (\<lambda>m. py_bind (r_at r i m k) (\<lambda>c. term_of (of_int c) x [int i, int m])) [0..<M]"

text \<open>\<open>max(r[j][m][k] for m in range(M))\<close>\<close>

definition max_requirement :: "nat \<Rightarrow> int list list list \<Rightarrow> nat \<Rightarrow> nat \<Rightarrow> py_error + int" where
  "max_requirement M r j k = py_bind (for_each (\<lambda>m. r_at r j m k) [0..<M]) py_max"

text \<open>
  \<^verbatim>\<open>S[i] + quicksum(p[i][m] * x[i, m] for m in range(M)) <= S[j] + T*(1-y[i, j])
  for i,j in VP\<close>
\<close>

definition connect_start_completion ::
  "tupledict \<Rightarrow> tupledict \<Rightarrow> tupledict \<Rightarrow> nat \<Rightarrow> int \<Rightarrow> int list list \<Rightarrow> (nat \<times> nat) list \<Rightarrow>
     py_error + constr list" where
  "connect_start_completion S x y M T p VP' =
     for_each (\<lambda>(i, j).
       py_bind (term_of 1 S [int i]) (\<lambda>si.
       py_bind (chosen_duration x M p i) (\<lambda>dur.
       py_bind (term_of 1 S [int j]) (\<lambda>sj.
       py_bind (term_of 1 y [int i, int j]) (\<lambda>yij.
       Inr (Constr (lin_add si dur) LE
              (lin_add sj (lin_scale (of_int T) (lin_sub (lin_const 1) yij))))))))) VP'"

text \<open>
  \<^verbatim>\<open>S[i] + quicksum(p[i][m] * x[i, m] for m in range(M)) <= S[j]   for i,j in E\<close>
\<close>

definition continuous_precedence ::
  "tupledict \<Rightarrow> tupledict \<Rightarrow> nat \<Rightarrow> int list list \<Rightarrow> (nat \<times> nat) list \<Rightarrow> py_error + constr list" where
  "continuous_precedence S x M p E =
     for_each (\<lambda>(i, j).
       py_bind (term_of 1 S [int i]) (\<lambda>si.
       py_bind (chosen_duration x M p i) (\<lambda>dur.
       py_bind (term_of 1 S [int j]) (\<lambda>sj.
       Inr (Constr (lin_add si dur) LE sj))))) E"

text \<open>\<open>T * z[i, j] >= S[j] - S[i] + 1 for i,j in VP\<close>\<close>

definition connect_start_start_timing ::
  "tupledict \<Rightarrow> tupledict \<Rightarrow> int \<Rightarrow> (nat \<times> nat) list \<Rightarrow> py_error + constr list" where
  "connect_start_start_timing S z T VP' =
     for_each (\<lambda>(i, j).
       py_bind (term_of (of_int T) z [int i, int j]) (\<lambda>zij.
       py_bind (term_of 1 S [int j]) (\<lambda>sj.
       py_bind (term_of 1 S [int i]) (\<lambda>si.
       Inr (Constr zij GE (lin_add (lin_sub sj si) (lin_const 1))))))) VP'"

text \<open>\<open>quicksum(x[i, m] for m in range(M)) == 1 for i in range(n)\<close>\<close>

definition execute_activity :: "tupledict \<Rightarrow> nat \<Rightarrow> nat \<Rightarrow> py_error + constr list" where
  "execute_activity x n M =
     for_each (\<lambda>i.
       py_bind (quicksum_of (\<lambda>m. term_of 1 x [int i, int m]) [0..<M]) (\<lambda>lhs.
       Inr (Constr lhs EQ (lin_const 1)))) [0..<n]"

text \<open>
  \<^verbatim>\<open>quicksum(r[j][m][k] * x[j, m] for m in range(M))
    - max(r[j][m][k] for m in range(M))*(1 - z[j, i] + y[j, i]) <= u[j,i,k]
  for j, i in VP for k in range(len(R))\<close>
\<close>

definition continuous_resource ::
  "tupledict \<Rightarrow> tupledict \<Rightarrow> tupledict \<Rightarrow> tupledict \<Rightarrow> nat \<Rightarrow> int list \<Rightarrow> int list list list \<Rightarrow>
     (nat \<times> nat) list \<Rightarrow> py_error + constr list" where
  "continuous_resource x y z u M R r VP' =
     for_each (\<lambda>((j, i), k).
       py_bind (chosen_requirement x M r j k) (\<lambda>req.
       py_bind (max_requirement M r j k) (\<lambda>mx.
       py_bind (term_of 1 z [int j, int i]) (\<lambda>zji.
       py_bind (term_of 1 y [int j, int i]) (\<lambda>yji.
       py_bind (term_of 1 u [int j, int i, int k]) (\<lambda>ujik.
       Inr (Constr
              (lin_sub req (lin_scale (of_int mx) (lin_add (lin_sub (lin_const 1) zji) yji)))
              LE ujik)))))))
       [((j, i), k). (j, i) \<leftarrow> VP', k \<leftarrow> [0..<length R]]"

text \<open>
  \<^verbatim>\<open>quicksum(r[i][m][k] * x[i, m] for m in range(M))
    + quicksum(u[j, i, k] for j, i_prime in VP if i_prime == i) <= R[k]
  for i in range(n) for k in range(len(R))\<close>
\<close>

definition continuous_resource_2 ::
  "tupledict \<Rightarrow> tupledict \<Rightarrow> nat \<Rightarrow> nat \<Rightarrow> int list \<Rightarrow> int list list list \<Rightarrow> (nat \<times> nat) list \<Rightarrow>
     py_error + constr list" where
  "continuous_resource_2 x u n M R r VP' =
     for_each (\<lambda>(i, k).
       py_bind (chosen_requirement x M r i k) (\<lambda>req.
       py_bind (quicksum_of (\<lambda>(j, i_prime). term_of 1 u [int j, int i, int k])
                  [(j, i_prime). (j, i_prime) \<leftarrow> VP', i_prime = i]) (\<lambda>others.
       Inr (Constr (lin_add req others) LE (lin_const (of_int (R ! k)))))))
       [(i, k). i \<leftarrow> [0..<n], k \<leftarrow> [0..<length R]]"

text \<open>\<open>x[i, m] == x[j, m] for i,j in L for m in range(M)\<close>\<close>

definition continuous_linked :: "tupledict \<Rightarrow> nat \<Rightarrow> (nat \<times> nat) list \<Rightarrow> py_error + constr list" where
  "continuous_linked x M L =
     for_each (\<lambda>((i, j), m).
       py_bind (term_of 1 x [int i, int m]) (\<lambda>xi.
       py_bind (term_of 1 x [int j, int m]) (\<lambda>xj.
       Inr (Constr xi EQ xj))))
       [((i, j), m). (i, j) \<leftarrow> L, m \<leftarrow> [0..<M]]"

definition continuous_body ::
  "(nat \<times> nat) list \<Rightarrow> rcpsp \<Rightarrow> int list list \<Rightarrow> int \<Rightarrow> int list \<Rightarrow> py_error + model" where
  "continuous_body VP' inst p T est =
     (let n = inst_n inst; M = inst_M inst; R = inst_R inst; r = inst_r inst;
          S = addVars ''activity'' [[int i]. i \<leftarrow> [0..<n]] in
      py_bind (earliest_starting_times S n est) (\<lambda>early.
      let x = addVars ''mode'' [[int i, int m]. i \<leftarrow> [0..<n], m \<leftarrow> [0..<M]];
          y = addVars ''completion_start_sequence'' (pair_sets n);
          z = addVars ''start_start_sequence'' (pair_sets n);
          u = addVars ''resource''
                [[int i, int j, int k]. i \<leftarrow> [0..<n], j \<leftarrow> [0..<n], k \<leftarrow> [0..<length R]] in
      py_bind (term_of 1 S [int n - 1]) (\<lambda>obj.
      py_bind (connect_start_completion S x y M T p VP') (\<lambda>csc.
      py_bind (continuous_precedence S x M p (inst_E inst)) (\<lambda>prec.
      py_bind (connect_start_start_timing S z T VP') (\<lambda>sst.
      py_bind (execute_activity x n M) (\<lambda>exe.
      py_bind (continuous_resource x y z u M R r VP') (\<lambda>res.
      py_bind (continuous_resource_2 x u n M R r VP') (\<lambda>res2.
      py_bind (continuous_linked x M (inst_L inst)) (\<lambda>lnk.
      Inr \<lparr>model_name = ''continuous'',
           variables =
             declared CONTINUOUS S @ declared BINARY x @ declared BINARY y @
             declared BINARY z @ declared BINARY u,
           objective = obj,
           constraints =
             tagged ''earliest_starting_times'' early @
             tagged ''connect_start_completion'' csc @
             tagged ''connect_start_completion'' prec @
             tagged ''connect_start_start_timing'' sst @
             tagged ''execute_activity'' exe @
             tagged ''resource'' res @ tagged ''resource_2'' res2 @
             tagged ''linked'' lnk\<rparr>))))))))))"

definition continuous_model :: "rcpsp \<Rightarrow> (nat \<times> nat) list \<Rightarrow> int list list \<times> (py_error + model \<times> int)" where
  "continuous_model inst VP' = build (continuous_body VP') inst"

section \<open>What the solver is asked\<close>

text \<open>
  The meaning of a model, as the solver's contract gives it: an assignment of reals to the
  variables is feasible when every binary variable is 0 or 1, every continuous variable is
  non-negative (the default lower bound of \<open>addVars\<close>) and every constraint holds; the
  optimal objective value is the least objective value of a feasible assignment.
\<close>

definition eval :: "(var \<Rightarrow> real) \<Rightarrow> linexpr \<Rightarrow> real" where
  "eval a e = (\<Sum>(k, v) \<leftarrow> fst e. of_rat k * a v) + of_rat (snd e)"

fun holds :: "(var \<Rightarrow> real) \<Rightarrow> constr \<Rightarrow> bool" where
  "holds a (Constr l LE r) = (eval a l \<le> eval a r)"
| "holds a (Constr l GE r) = (eval a l \<ge> eval a r)"
| "holds a (Constr l EQ r) = (eval a l = eval a r)"

fun in_domain :: "(var \<Rightarrow> real) \<Rightarrow> var \<times> vtype \<Rightarrow> bool" where
  "in_domain a (v, BINARY) = (a v = 0 \<or> a v = 1)"
| "in_domain a (v, CONTINUOUS) = (0 \<le> a v)"

definition feasible :: "model \<Rightarrow> (var \<Rightarrow> real) \<Rightarrow> bool" where
  "feasible mdl a \<longleftrightarrow>
     list_all (in_domain a) (variables mdl) \<and> list_all (\<lambda>(name, c). holds a c) (constraints mdl)"

definition optimal_value :: "model \<Rightarrow> real \<Rightarrow> bool" where
  "optimal_value mdl v \<longleftrightarrow>
     (\<exists>a. feasible mdl a \<and> eval a (objective mdl) = v) \<and>
     (\<forall>a. feasible mdl a \<longrightarrow> v \<le> eval a (objective mdl))"

section \<open>Predicates used in the statements\<close>

text \<open>The horizon is positive or some duration is.\<close>

definition some_time_positive :: "int list list \<Rightarrow> int \<Rightarrow> bool" where
  "some_time_positive p T \<longleftrightarrow> 0 < T \<or> (\<exists>row \<in> set p. \<exists>v \<in> set row. 0 < v)"

section \<open>Instances used in the evaluations\<close>

text \<open>
  Two activities of one time unit between a source and a sink, each needing two units of a
  resource of capacity four, as loaded from an instance file; the pair set that
  \<open>test_models\<close> derives for it is \<open>[(0, 3), (1, 2), (2, 1), (3, 0)]\<close>.
\<close>

definition two_parallel :: rcpsp where
  "two_parallel =
     \<lparr>inst_n = 4, inst_T = 4, inst_M = 1, inst_R = [4],
      inst_E = [(0, 1), (0, 2), (1, 3), (2, 3)], inst_p = loaded [[0], [1], [1], [0]],
      inst_L = [], inst_r = [[[0]], [[2]], [[2]], [[0]]]\<rparr>"

text \<open>The model that \<open>pulse_model\<close> builds for it, written out.\<close>

definition two_parallel_pulse :: model where
  "two_parallel_pulse =
     \<lparr>model_name = ''pulse'',
     variables = declared BINARY (addVars ''pulse'' (step_sets 4 1 4)),
     objective =
       ([(0, Var ''pulse'' [3, 0, 0]), (1, Var ''pulse'' [3, 0, 1]),
         (2, Var ''pulse'' [3, 0, 2]), (3, Var ''pulse'' [3, 0, 3])],
        0),
     constraints =
       [(''schedule'',
         Constr
          ([(1, Var ''pulse'' [0, 0, 0]), (1, Var ''pulse'' [0, 0, 1]),
            (1, Var ''pulse'' [0, 0, 2]),
            (1, Var ''pulse'' [0, 0, 3])],
           0)
          EQ ([], 1)),
        (''schedule'',
         Constr
          ([(1, Var ''pulse'' [1, 0, 0]), (1, Var ''pulse'' [1, 0, 1]),
            (1, Var ''pulse'' [1, 0, 2]),
            (1, Var ''pulse'' [1, 0, 3])],
           0)
          EQ ([], 1)),
        (''schedule'',
         Constr
          ([(1, Var ''pulse'' [2, 0, 0]), (1, Var ''pulse'' [2, 0, 1]),
            (1, Var ''pulse'' [2, 0, 2]),
            (1, Var ''pulse'' [2, 0, 3])],
           0)
          EQ ([], 1)),
        (''schedule'',
         Constr
          ([(1, Var ''pulse'' [3, 0, 0]), (1, Var ''pulse'' [3, 0, 1]),
            (1, Var ''pulse'' [3, 0, 2]),
            (1, Var ''pulse'' [3, 0, 3])],
           0)
          EQ ([], 1)),
        (''precedence'',
         Constr
          ([(0, Var ''pulse'' [0, 0, 0]), (1, Var ''pulse'' [0, 0, 1]),
            (2, Var ''pulse'' [0, 0, 2]),
            (3, Var ''pulse'' [0, 0, 3])],
           0)
          LE ([(0, Var ''pulse'' [1, 0, 0]),
               (1, Var ''pulse'' [1, 0, 1]),
               (2, Var ''pulse'' [1, 0, 2]),
               (3, Var ''pulse'' [1, 0, 3])],
              0)),
        (''precedence'',
         Constr
          ([(0, Var ''pulse'' [0, 0, 0]), (1, Var ''pulse'' [0, 0, 1]),
            (2, Var ''pulse'' [0, 0, 2]),
            (3, Var ''pulse'' [0, 0, 3])],
           0)
          LE ([(0, Var ''pulse'' [2, 0, 0]),
               (1, Var ''pulse'' [2, 0, 1]),
               (2, Var ''pulse'' [2, 0, 2]),
               (3, Var ''pulse'' [2, 0, 3])],
              0)),
        (''precedence'',
         Constr
          ([(1, Var ''pulse'' [1, 0, 0]), (2, Var ''pulse'' [1, 0, 1]),
            (3, Var ''pulse'' [1, 0, 2]),
            (4, Var ''pulse'' [1, 0, 3])],
           0)
          LE ([(0, Var ''pulse'' [3, 0, 0]),
               (1, Var ''pulse'' [3, 0, 1]),
               (2, Var ''pulse'' [3, 0, 2]),
               (3, Var ''pulse'' [3, 0, 3])],
              0)),
        (''precedence'',
         Constr
          ([(1, Var ''pulse'' [2, 0, 0]), (2, Var ''pulse'' [2, 0, 1]),
            (3, Var ''pulse'' [2, 0, 2]),
            (4, Var ''pulse'' [2, 0, 3])],
           0)
          LE ([(0, Var ''pulse'' [3, 0, 0]),
               (1, Var ''pulse'' [3, 0, 1]),
               (2, Var ''pulse'' [3, 0, 2]),
               (3, Var ''pulse'' [3, 0, 3])],
              0)),
        (''resource'',
         Constr
          ([(2, Var ''pulse'' [1, 0, 0]),
            (2, Var ''pulse'' [2, 0, 0])],
           0)
          LE ([], 4)),
        (''resource'',
         Constr
          ([(2, Var ''pulse'' [1, 0, 1]),
            (2, Var ''pulse'' [2, 0, 1])],
           0)
          LE ([], 4)),
        (''resource'',
         Constr
          ([(2, Var ''pulse'' [1, 0, 2]),
            (2, Var ''pulse'' [2, 0, 2])],
           0)
          LE ([], 4)),
        (''resource'',
         Constr
          ([(2, Var ''pulse'' [1, 0, 3]),
            (2, Var ''pulse'' [2, 0, 3])],
           0)
          LE ([], 4)),
        (''zero_time_slots'',
         Constr ([(1, Var ''pulse'' [3, 0, 0])], 0) EQ ([], 0))]\<rparr>"

text \<open>The model that \<open>continuous_model\<close> builds for it, written out.\<close>

definition two_parallel_continuous :: model where
  "two_parallel_continuous =
     \<lparr>model_name = ''continuous'',
     variables = declared CONTINUOUS (addVars ''activity'' [[0], [1], [2], [3]]) @
       declared BINARY (addVars ''mode'' [[0, 0], [1, 0], [2, 0], [3, 0]]) @
       declared BINARY (addVars ''completion_start_sequence'' (pair_sets 4)) @
       declared BINARY (addVars ''start_start_sequence'' (pair_sets 4)) @
       declared BINARY (addVars ''resource'' [[0, 0, 0], [0, 1, 0], [0, 2, 0], [0, 3, 0], [1, 0, 0], [1, 1, 0], [1, 2, 0], [1, 3, 0], [2, 0, 0], [2, 1, 0], [2, 2, 0], [2, 3, 0], [3, 0, 0], [3, 1, 0], [3, 2, 0], [3, 3, 0]]),
     objective = ([(1, Var ''activity'' [3])], 0),
     constraints =
       [(''earliest_starting_times'',
         Constr ([(1, Var ''activity'' [0])], 0) GE ([], 0)),
        (''earliest_starting_times'',
         Constr ([(1, Var ''activity'' [1])], 0) GE ([], 0)),
        (''earliest_starting_times'',
         Constr ([(1, Var ''activity'' [2])], 0) GE ([], 0)),
        (''earliest_starting_times'',
         Constr ([(1, Var ''activity'' [3])], 0) GE ([], 1)),
        (''connect_start_completion'',
         Constr
          ([(1, Var ''activity'' [0]), (0, Var ''mode'' [0, 0])], 0) LE
          ([(1, Var ''activity'' [3]),
            (- 4, Var ''completion_start_sequence'' [0, 3])],
           4)),
        (''connect_start_completion'',
         Constr
          ([(1, Var ''activity'' [1]), (1, Var ''mode'' [1, 0])], 0) LE
          ([(1, Var ''activity'' [2]),
            (- 4, Var ''completion_start_sequence'' [1, 2])],
           4)),
        (''connect_start_completion'',
         Constr
          ([(1, Var ''activity'' [2]), (1, Var ''mode'' [2, 0])], 0) LE
          ([(1, Var ''activity'' [1]),
            (- 4, Var ''completion_start_sequence'' [2, 1])],
           4)),
        (''connect_start_completion'',
         Constr
          ([(1, Var ''activity'' [3]), (0, Var ''mode'' [3, 0])], 0) LE
          ([(1, Var ''activity'' [0]),
            (- 4, Var ''completion_start_sequence'' [3, 0])],
           4)),
        (''connect_start_completion'',
         Constr
          ([(1, Var ''activity'' [0]), (0, Var ''mode'' [0, 0])], 0) LE
          ([(1, Var ''activity'' [1])], 0)),
        (''connect_start_completion'',
         Constr
          ([(1, Var ''activity'' [0]), (0, Var ''mode'' [0, 0])], 0) LE
          ([(1, Var ''activity'' [2])], 0)),
        (''connect_start_completion'',
         Constr
          ([(1, Var ''activity'' [1]), (1, Var ''mode'' [1, 0])], 0) LE
          ([(1, Var ''activity'' [3])], 0)),
        (''connect_start_completion'',
         Constr
          ([(1, Var ''activity'' [2]), (1, Var ''mode'' [2, 0])], 0) LE
          ([(1, Var ''activity'' [3])], 0)),
        (''connect_start_start_timing'',
         Constr ([(4, Var ''start_start_sequence'' [0, 3])], 0) GE
          ([(1, Var ''activity'' [3]), (- 1, Var ''activity'' [0])],
           1)),
        (''connect_start_start_timing'',
         Constr ([(4, Var ''start_start_sequence'' [1, 2])], 0) GE
          ([(1, Var ''activity'' [2]), (- 1, Var ''activity'' [1])],
           1)),
        (''connect_start_start_timing'',
         Constr ([(4, Var ''start_start_sequence'' [2, 1])], 0) GE
          ([(1, Var ''activity'' [1]), (- 1, Var ''activity'' [2])],
           1)),
        (''connect_start_start_timing'',
         Constr ([(4, Var ''start_start_sequence'' [3, 0])], 0) GE
          ([(1, Var ''activity'' [0]), (- 1, Var ''activity'' [3])],
           1)),
        (''execute_activity'',
         Constr ([(1, Var ''mode'' [0, 0])], 0) EQ ([], 1)),
        (''execute_activity'',
         Constr ([(1, Var ''mode'' [1, 0])], 0) EQ ([], 1)),
        (''execute_activity'',
         Constr ([(1, Var ''mode'' [2, 0])], 0) EQ ([], 1)),
        (''execute_activity'',
         Constr ([(1, Var ''mode'' [3, 0])], 0) EQ ([], 1)),
        (''resource'',
         Constr
          ([(0, Var ''mode'' [0, 0]),
            (0, Var ''start_start_sequence'' [0, 3]),
            (0, Var ''completion_start_sequence'' [0, 3])],
           0)
          LE ([(1, Var ''resource'' [0, 3, 0])], 0)),
        (''resource'',
         Constr
          ([(2, Var ''mode'' [1, 0]),
            (2, Var ''start_start_sequence'' [1, 2]),
            (- 2, Var ''completion_start_sequence'' [1, 2])],
           - 2)
          LE ([(1, Var ''resource'' [1, 2, 0])], 0)),
        (''resource'',
         Constr
          ([(2, Var ''mode'' [2, 0]),
            (2, Var ''start_start_sequence'' [2, 1]),
            (- 2, Var ''completion_start_sequence'' [2, 1])],
           - 2)
          LE ([(1, Var ''resource'' [2, 1, 0])], 0)),
        (''resource'',
         Constr
          ([(0, Var ''mode'' [3, 0]),
            (0, Var ''start_start_sequence'' [3, 0]),
            (0, Var ''completion_start_sequence'' [3, 0])],
           0)
          LE ([(1, Var ''resource'' [3, 0, 0])], 0)),
        (''resource_2'',
         Constr
          ([(0, Var ''mode'' [0, 0]), (1, Var ''resource'' [3, 0, 0])],
           0)
          LE ([], 4)),
        (''resource_2'',
         Constr
          ([(2, Var ''mode'' [1, 0]), (1, Var ''resource'' [2, 1, 0])],
           0)
          LE ([], 4)),
        (''resource_2'',
         Constr
          ([(2, Var ''mode'' [2, 0]), (1, Var ''resource'' [1, 2, 0])],
           0)
          LE ([], 4)),
        (''resource_2'',
         Constr
          ([(0, Var ''mode'' [3, 0]), (1, Var ''resource'' [0, 3, 0])],
           0)
          LE ([], 4))]\<rparr>"

text \<open>
  Two schedules as assignments: in the first both activities start at 0 and the sink at 1;
  in the second activity 1 starts at 0, activity 2 at 1 and the sink at 2.
\<close>

definition parallel_pulses :: "var \<Rightarrow> real" where
  "parallel_pulses v =
     (if v \<in> {Var ''pulse'' [0, 0, 0], Var ''pulse'' [1, 0, 0], Var ''pulse'' [2, 0, 0],
               Var ''pulse'' [3, 0, 1]} then 1 else 0)"

definition one_after_the_other :: "var \<Rightarrow> real" where
  "one_after_the_other v =
     (if v = Var ''activity'' [2] then 1
      else if v = Var ''activity'' [3] then 2
      else if v \<in> {Var ''mode'' [0, 0], Var ''mode'' [1, 0], Var ''mode'' [2, 0], Var ''mode'' [3, 0],
                     Var ''completion_start_sequence'' [1, 2],
                     Var ''start_start_sequence'' [0, 3], Var ''start_start_sequence'' [1, 2]}
      then 1 else 0)"

text \<open>A chain whose activity 1 has duration zero though it is neither source nor sink.\<close>

definition zero_duration :: rcpsp where
  "zero_duration =
     \<lparr>inst_n = 4, inst_T = 4, inst_M = 1, inst_R = [1],
      inst_E = [(0, 1), (1, 2), (2, 3)], inst_p = loaded [[0], [0], [2], [0]],
      inst_L = [], inst_r = [[[0]], [[1]], [[1]], [[0]]]\<rparr>"

text \<open>The model that \<open>onoff_model\<close> builds for it, written out.\<close>

definition zero_duration_onoff :: model where
  "zero_duration_onoff =
     \<lparr>model_name = ''onoff'',
     variables =
       [(Var ''onoff'' [0, 0, 0], BINARY),
        (Var ''onoff'' [0, 0, 1], BINARY),
        (Var ''onoff'' [1, 0, 0], BINARY),
        (Var ''onoff'' [1, 0, 1], BINARY),
        (Var ''onoff'' [2, 0, 0], BINARY),
        (Var ''onoff'' [2, 0, 1], BINARY),
        (Var ''onoff'' [3, 0, 0], BINARY),
        (Var ''onoff'' [3, 0, 1], BINARY)],
     objective = ([(1, Var ''onoff'' [3, 0, 1])], 0),
     constraints =
       [(''schedule'',
         Constr
          ([(1, Var ''onoff'' [1, 0, 0]),
            (1, Var ''onoff'' [1, 0, 1])],
           0)
          EQ ([], 1)),
        (''schedule'',
         Constr
          ([(1, Var ''onoff'' [2, 0, 0]),
            (1, Var ''onoff'' [2, 0, 1])],
           0)
          EQ ([], 1)),
        (''schedule_first'',
         Constr
          ([(1, Var ''onoff'' [0, 0, 0]),
            (1, Var ''onoff'' [0, 0, 1])],
           0)
          EQ ([], 1)),
        (''schedule_last'',
         Constr
          ([(1, Var ''onoff'' [3, 0, 0]),
            (1, Var ''onoff'' [3, 0, 1])],
           0)
          EQ ([], 1)),
        (''started_same_mode'',
         Constr
          ([(0, Var ''onoff'' [0, 0, 0]),
            (0, Var ''onoff'' [0, 0, 1])],
           0)
          LE ([], 1)),
        (''started_same_mode'',
         Constr
          ([(0, Var ''onoff'' [1, 0, 0]),
            (0, Var ''onoff'' [1, 0, 1])],
           0)
          LE ([], 1)),
        (''started_same_mode'',
         Constr
          ([(1, Var ''onoff'' [2, 0, 0]),
            (- 1, Var ''onoff'' [2, 0, 1])],
           0)
          LE ([], 1)),
        (''started_same_mode'',
         Constr
          ([(0, Var ''onoff'' [3, 0, 0]),
            (0, Var ''onoff'' [3, 0, 1])],
           0)
          LE ([], 1)),
        (''precedence'',
         Constr ([(1, Var ''onoff'' [0, 0, 0])], 0) GE
          ([(1, Var ''onoff'' [1, 0, 0])], 0)),
        (''precedence'',
         Constr
          ([(1, Var ''onoff'' [0, 0, 0]),
            (1, Var ''onoff'' [0, 0, 1])],
           0)
          GE ([(1, Var ''onoff'' [1, 0, 1])], 0)),
        (''precedence'',
         Constr ([(1, Var ''onoff'' [1, 0, 0])], 0) GE
          ([(1, Var ''onoff'' [2, 0, 0])], 0)),
        (''precedence'',
         Constr
          ([(1, Var ''onoff'' [1, 0, 0]),
            (1, Var ''onoff'' [1, 0, 1])],
           0)
          GE ([(1, Var ''onoff'' [2, 0, 1])], 0)),
        (''precedence'',
         Constr ([], 0) GE ([(1, Var ''onoff'' [3, 0, 0])], 0)),
        (''precedence'',
         Constr ([(1, Var ''onoff'' [2, 0, 0])], 0) GE
          ([(1, Var ''onoff'' [3, 0, 1])], 0)),
        (''resource'',
         Constr
          ([(0, Var ''onoff'' [0, 0, 0]), (1, Var ''onoff'' [1, 0, 0]),
            (1, Var ''onoff'' [2, 0, 0]),
            (0, Var ''onoff'' [3, 0, 0])],
           0)
          LE ([], 1)),
        (''resource'',
         Constr
          ([(0, Var ''onoff'' [0, 0, 1]), (1, Var ''onoff'' [1, 0, 1]),
            (1, Var ''onoff'' [2, 0, 1]),
            (0, Var ''onoff'' [3, 0, 1])],
           0)
          LE ([], 1)),
        (''zero_time_slots'',
         Constr ([(1, Var ''onoff'' [3, 0, 0])], 0) EQ ([], 0))]\<rparr>"

text \<open>A chain whose durations and horizon share the divisor 2.\<close>

definition even_durations :: rcpsp where
  "even_durations =
     \<lparr>inst_n = 3, inst_T = 4, inst_M = 1, inst_R = [1],
      inst_E = [(0, 1), (1, 2)], inst_p = loaded [[0], [2], [0]],
      inst_L = [], inst_r = [[[0]], [[1]], [[0]]]\<rparr>"

section \<open>The builders as a family\<close>

text \<open>The eight builders that test.py runs.\<close>

definition all_builders ::
  "(rcpsp \<Rightarrow> (nat \<times> nat) list \<Rightarrow> int list list \<times> (py_error + model \<times> int)) list" where
  "all_builders =
     [pulse_model, pulse_model_disaggregated, step_model, step_model_disaggregated,
      onoff_model, onoff_pulse_model, onoff_pulse_model_disaggregated, continuous_model]"

text \<open>
  The seven discrete-time builders, each with the name of the variable family that its last
  constraint family fixes to zero, and the name of that constraint family.
\<close>

definition discrete_builders ::
  "((rcpsp \<Rightarrow> (nat \<times> nat) list \<Rightarrow> int list list \<times> (py_error + model \<times> int)) \<times>
      string \<times> string) list" where
  "discrete_builders =
     [(pulse_model, ''pulse'', ''zero_time_slots''),
      (pulse_model_disaggregated, ''pulse'', ''zero_time_slots''),
      (step_model, ''pulse'', ''earliest_start_times''),
      (step_model_disaggregated, ''pulse'', ''earliest_start_times''),
      (onoff_model, ''onoff'', ''zero_time_slots''),
      (onoff_pulse_model, ''pulse'', ''zero_time_slots''),
      (onoff_pulse_model_disaggregated, ''pulse'', ''zero_time_slots'')]"

text \<open>The model holds the constraint, under the family name.\<close>

definition emits :: "model \<Rightarrow> string \<Rightarrow> constr \<Rightarrow> bool" where
  "emits mdl family c \<longleftrightarrow> (family, c) \<in> set (constraints mdl)"

text \<open>Every duration of the table is zero.\<close>

definition all_zero :: "int list list \<Rightarrow> bool" where
  "all_zero p \<longleftrightarrow> (\<forall>row \<in> set p. \<forall>v \<in> set row. v = 0)"

section \<open>Loop invariants of the two passes\<close>

lemma fold_min_Min: "fold min xs (x::int) = Min (set (x # xs))"
  using Min.set_eq_fold[of x xs] by simp

lemma min_over_modes_shaped:
  assumes "0 < M" "j < length p" "M \<le> length (p ! j)"
  shows "min_over_modes M p j = Inr (min_duration M p j)"
proof -
  from assms obtain x xs where tk: "take M (p ! j) = x # xs"
    by (cases "take M (p ! j)") auto
  show ?thesis using assms tk
    by (simp add: min_over_modes_def mode_durations_def min_duration_def fold_min_Min)
qed

lemma max_over_modes_shaped:
  assumes "0 < M" "j < length p" "M \<le> length (p ! j)"
  shows "\<exists>d. max_over_modes M p j = Inr d"
proof -
  from assms obtain x xs where tk: "take M (p ! j) = x # xs"
    by (cases "take M (p ! j)") auto
  show ?thesis using assms tk
    by (simp add: max_over_modes_def mode_durations_def)
qed

lemma est_edges_inv:
  assumes "est_edges M p i E est = Inr est'"
  shows "length est' = length est \<and> (\<forall>k. k \<noteq> i \<longrightarrow> est' ! k = est ! k) \<and> est ! i \<le> est' ! i"
  using assms
proof (induction E arbitrary: est)
  case Nil
  then show ?case by simp
next
  case (Cons e es)
  obtain j k where e: "e = (j, k)" by (cases e)
  from Cons.prems obtain est1 where s1: "est_edge M p i e est = Inr est1"
    and s2: "est_edges M p i es est1 = Inr est'"
    by (auto split: sum.splits)
  from s1 e have a: "length est1 = length est \<and> (\<forall>k. k \<noteq> i \<longrightarrow> est1 ! k = est ! k) \<and> est ! i \<le> est1 ! i"
    by (cases "i < length est") (auto simp: list_update_beyond split: if_splits sum.splits)
  from Cons.IH[OF s2] a show ?case by auto
qed

lemma est_edges_edge:
  assumes "est_edges M p i E est = Inr est'" "(j, i) \<in> set E" "j \<noteq> i" "i < length est"
  shows "\<exists>d. min_over_modes M p j = Inr d \<and> est ! j + d \<le> est' ! i"
  using assms
proof (induction E arbitrary: est)
  case Nil
  then show ?case by simp
next
  case (Cons e es)
  from Cons.prems(1) obtain est1 where s1: "est_edge M p i e est = Inr est1"
    and s2: "est_edges M p i es est1 = Inr est'"
    by (auto split: sum.splits)
  have inv1: "length est1 = length est \<and> (\<forall>k. k \<noteq> i \<longrightarrow> est1 ! k = est ! k) \<and> est ! i \<le> est1 ! i"
    using est_edges_inv[of M p i "[e]" est est1] s1 by simp
  have inv2: "length est' = length est1 \<and> (\<forall>k. k \<noteq> i \<longrightarrow> est' ! k = est1 ! k) \<and> est1 ! i \<le> est' ! i"
    using est_edges_inv[OF s2] .
  show ?case
  proof (cases "e = (j, i)")
    case True
    with s1 obtain d where d: "min_over_modes M p j = Inr d" and jl: "j < length est"
      and e1: "est1 = est[i := max (est ! j + d) (est ! i)]"
      by (auto split: sum.splits if_splits)
    from e1 Cons.prems(4) have "est ! j + d \<le> est1 ! i" by simp
    with inv2 d show ?thesis by auto
  next
    case False
    with Cons.prems(2) have "(j, i) \<in> set es" by simp
    from Cons.IH[OF s2 this Cons.prems(3)] inv1 Cons.prems(3,4)
    show ?thesis by auto
  qed
qed

lemma est_loop_inv:
  assumes "est_loop M E p is est = Inr est'"
  shows "length est' = length est \<and> (\<forall>k. k \<notin> set is \<longrightarrow> est' ! k = est ! k)"
  using assms
proof (induction "is" arbitrary: est)
  case Nil
  then show ?case by simp
next
  case (Cons i "is")
  from Cons.prems obtain est1 where s1: "est_edges M p i E est = Inr est1"
    and s2: "est_loop M E p is est1 = Inr est'"
    by (auto split: sum.splits)
  from est_edges_inv[OF s1] Cons.IH[OF s2] show ?case by auto
qed

lemma est_loop_edge:
  assumes "est_loop M E p is est = Inr est'" "sorted_wrt (<) is"
    "\<forall>i \<in> set is. i < length est" "\<forall>(j, i) \<in> set E. j < i"
    "(j, i) \<in> set E" "i \<in> set is"
  shows "\<exists>d. min_over_modes M p j = Inr d \<and> est' ! j + d \<le> est' ! i"
  using assms
proof (induction "is" arbitrary: est)
  case Nil
  then show ?case by simp
next
  case (Cons a "is")
  from Cons.prems(1) obtain est1 where s1: "est_edges M p a E est = Inr est1"
    and s2: "est_loop M E p is est1 = Inr est'"
    by (auto split: sum.splits)
  have inv1: "length est1 = length est \<and> (\<forall>k. k \<noteq> a \<longrightarrow> est1 ! k = est ! k)"
    using est_edges_inv[OF s1] by simp
  have inv2: "length est' = length est1 \<and> (\<forall>k. k \<notin> set is \<longrightarrow> est' ! k = est1 ! k)"
    using est_loop_inv[OF s2] .
  have ji: "j < i" using Cons.prems(4,5) by auto
  show ?case
  proof (cases "i = a")
    case True
    have anot: "a \<notin> set is" "j \<notin> set is" using Cons.prems(2) ji True by auto
    have "\<exists>d. min_over_modes M p j = Inr d \<and> est ! j + d \<le> est1 ! a"
      using est_edges_edge[OF s1, of j] Cons.prems(3,5) ji True by auto
    then obtain d where d: "min_over_modes M p j = Inr d" "est ! j + d \<le> est1 ! a" by blast
    have "est1 ! j = est ! j" using inv1 ji True by auto
    with d inv2 anot True show ?thesis by auto
  next
    case False
    with Cons.prems(6) have iin: "i \<in> set is" by simp
    have srt: "sorted_wrt (<) is" using Cons.prems(2) by simp
    have len: "\<forall>i \<in> set is. i < length est1" using Cons.prems(3) inv1 by simp
    from Cons.IH[OF s2 srt len Cons.prems(4,5) iin] show ?thesis .
  qed
qed

lemma est_edges_total:
  assumes "well_shaped n M E' p" "set E \<subseteq> set E'" "length est = n"
  shows "\<exists>est'. est_edges M p i E est = Inr est' \<and> length est' = n"
  using assms
proof (induction E arbitrary: est)
  case Nil
  then show ?case by simp
next
  case (Cons e es)
  obtain j k where e: "e = (j, k)" by (cases e)
  from Cons.prems e have jn: "j < n" "k < n" by (auto simp: well_shaped_def)
  from Cons.prems(1) jn have "0 < M" "j < length p" "M \<le> length (p ! j)"
    by (auto simp: well_shaped_def)
  from min_over_modes_shaped[OF this] jn Cons.prems(3) e
  have "\<exists>est1. est_edge M p i e est = Inr est1 \<and> length est1 = n"
    by simp
  then obtain est1 where s1: "est_edge M p i e est = Inr est1" "length est1 = n"
    by blast
  from Cons.IH[OF Cons.prems(1) _ s1(2)] Cons.prems(2) s1(1) show ?case by auto
qed

lemma est_loop_total:
  assumes "well_shaped n M E p" "length est = n"
  shows "\<exists>est'. est_loop M E p is est = Inr est' \<and> length est' = n"
  using assms
proof (induction "is" arbitrary: est)
  case Nil
  then show ?case by simp
next
  case (Cons i "is")
  from est_edges_total[OF Cons.prems(1) subset_refl Cons.prems(2), of i]
  obtain est1 where s1: "est_edges M p i E est = Inr est1" "length est1 = n" by blast
  from Cons.IH[OF Cons.prems(1) s1(2)] s1(1) show ?case by simp
qed

lemma lst_edges_total:
  assumes "well_shaped n M E' p" "set E \<subseteq> set E'" "length lst = n"
  shows "\<exists>lst'. lst_edges M p i E lst = Inr lst' \<and> length lst' = n"
  using assms
proof (induction E arbitrary: lst)
  case Nil
  then show ?case by simp
next
  case (Cons e es)
  obtain k j where e: "e = (k, j)" by (cases e)
  from Cons.prems e have jn: "j < n" "k < n" by (auto simp: well_shaped_def)
  from Cons.prems(1) jn have "0 < M" "j < length p" "M \<le> length (p ! j)"
    by (auto simp: well_shaped_def)
  from max_over_modes_shaped[OF this] obtain d where "max_over_modes M p j = Inr d" by blast
  with jn Cons.prems(3) e
  have "\<exists>lst1. lst_edge M p i e lst = Inr lst1 \<and> length lst1 = n"
    by simp
  then obtain lst1 where s1: "lst_edge M p i e lst = Inr lst1" "length lst1 = n"
    by blast
  from Cons.IH[OF Cons.prems(1) _ s1(2)] Cons.prems(2) s1(1) show ?case by auto
qed

lemma lst_loop_total:
  assumes "well_shaped n M E p" "length lst = n"
  shows "\<exists>lst'. lst_loop M E p is lst = Inr lst' \<and> length lst' = n"
  using assms
proof (induction "is" arbitrary: lst)
  case Nil
  then show ?case by simp
next
  case (Cons i "is")
  from lst_edges_total[OF Cons.prems(1) subset_refl Cons.prems(2), of i]
  obtain lst1 where s1: "lst_edges M p i E lst = Inr lst1" "length lst1 = n" by blast
  from Cons.IH[OF Cons.prems(1) s1(2)] s1(1) show ?case by simp
qed

lemma topological_acyclic:
  assumes "\<forall>(i, j) \<in> set E. i < (j::nat)"
  shows "acyclic (set E)"
proof -
  have "set E \<subseteq> {(i, j). i < j}" using assms by auto
  moreover have "acyclic {(i::nat, j). i < j}"
    using wf_less wf_acyclic by (simp add: wf_acyclic)
  ultimately show ?thesis by (rule acyclic_subset[rotated])
qed

section \<open>Evaluation on the three-activity chain\<close>

text \<open>
  C5. On the chain \<open>0 \<rightarrow> 1 \<rightarrow> 2\<close> with one mode and durations \<open>[[0], [3], [0]]\<close> the
  forward pass returns exactly \<open>[0, 0, 3]\<close>. (The resource data of the instance is not
  read by the function.)
\<close>

theorem chain_earliest_start:
  "get_earliest_start_time 3 1 [(0, 1), (1, 2)] [[0], [3], [0]] = Inr [0, 0, 3]"
  by code_simp

section \<open>The forward pass respects precedence\<close>

text \<open>
  C3. On a well-shaped instance whose activities are topologically numbered (every edge
  \<open>(i, j)\<close> has \<open>i < j\<close>) the forward pass returns a list \<open>est\<close> of \<open>n\<close> values with
  \<open>est[0] = 0\<close> and, for every edge \<open>(i, j)\<close>, \<open>est[i]\<close> plus the fastest duration of
  \<open>i\<close> at most \<open>est[j]\<close>. The sign of the durations plays no part in the proof, so the
  statement holds in particular when they are non-negative.
\<close>

theorem earliest_start_respects_precedence:
  assumes "well_shaped n M E p" and "topologically_numbered E"
  shows "\<exists>est. get_earliest_start_time n M E p = Inr est \<and> length est = n \<and> est ! 0 = 0 \<and>
           (\<forall>(i, j) \<in> set E. est ! i + min_duration M p i \<le> est ! j)"
proof -
  from assms(1) have n: "0 < n" by (simp add: well_shaped_def)
  from assms(2) have top: "\<forall>(i, j) \<in> set E. i < j" by (simp add: topologically_numbered_def)
  let ?e0 = "(replicate n (0::int))[0 := 0]"
  have l0: "length ?e0 = n" by simp
  from est_loop_total[OF assms(1) l0, of "[1..<n]"]
  obtain est where run: "est_loop M E p [1..<n] ?e0 = Inr est" and len: "length est = n" by blast
  from n run have res: "get_earliest_start_time n M E p = Inr est"
    by (simp add: get_earliest_start_time_def)
  have "est ! 0 = ?e0 ! 0" using est_loop_inv[OF run] by simp
  with n have zero: "est ! 0 = 0" by simp
  have edges: "est ! i + min_duration M p i \<le> est ! j" if ij: "(i, j) \<in> set E" for i j
  proof -
    from ij assms(1) top have b: "i < j" "j < n" "i < n" by (auto simp: well_shaped_def)
    then have jin: "j \<in> set [1..<n]" by simp
    have rng: "\<forall>i \<in> set [1..<n]. i < length ?e0" by simp
    have srt: "sorted_wrt (<) [1..<n]" by simp
    from est_loop_edge[OF run srt rng top ij jin]
    obtain d where d: "min_over_modes M p i = Inr d" "est ! i + d \<le> est ! j" by blast
    from assms(1) b have "0 < M" "i < length p" "M \<le> length (p ! i)"
      by (auto simp: well_shaped_def)
    from min_over_modes_shaped[OF this] d show ?thesis by simp
  qed
  from res len zero edges show ?thesis by blast
qed

theorem earliest_start_respects_precedence_witness:
  "well_shaped 3 1 [(0, 1), (1, 2)] [[0], [3], [0]] \<and> topologically_numbered [(0, 1), (1, 2)] \<and>
   (\<exists>est. get_earliest_start_time 3 1 [(0, 1), (1, 2)] [[0], [3], [0]] = Inr est \<and> length est = 3 \<and> est ! 0 = 0 \<and>
      (\<forall>(i, j) \<in> set [(0, 1), (1, 2)]. est ! i + min_duration 1 [[0], [3], [0]] i \<le> est ! j))"
proof -
  have ws: "well_shaped 3 1 [(0, 1), (1, 2)] [[0], [3], [0]]" by (simp add: well_shaped_def)
  have tp: "topologically_numbered [(0, 1), (1, 2)]" by (simp add: topologically_numbered_def)
  from earliest_start_respects_precedence[OF ws tp] ws tp show ?thesis by blast
qed

section \<open>Cyclic precedence\<close>

text \<open>
  C7, as the code has it. Neither pass inspects the edge relation for cycles: on every
  well-shaped instance, acyclic or not, both return a list of \<open>n\<close> values and raise
  nothing.
\<close>

theorem bound_estimation_without_cycle_check:
  assumes "well_shaped n M E p"
  shows "(\<exists>est. get_earliest_start_time n M E p = Inr est \<and> length est = n) \<and>
         (\<exists>lst. get_latest_start_time n M E p = Inr lst \<and> length lst = n)"
proof -
  from assms have n: "0 < n" by (simp add: well_shaped_def)
  have "\<exists>est. est_loop M E p [1..<n] ((replicate n 0)[0 := 0]) = Inr est \<and> length est = n"
    by (rule est_loop_total[OF assms]) simp
  with n have a: "\<exists>est. get_earliest_start_time n M E p = Inr est \<and> length est = n"
    by (simp add: get_earliest_start_time_def)
  have "\<exists>lst. lst_loop M E p (rev [1..<n]) ((replicate n (- 1))[n - 1 := 0]) = Inr lst \<and> length lst = n"
    by (rule lst_loop_total[OF assms]) simp
  with n have b: "\<exists>lst. get_latest_start_time n M E p = Inr lst \<and> length lst = n"
    by (auto simp: get_latest_start_time_def)
  from a b show ?thesis ..
qed

theorem bound_estimation_without_cycle_check_witness:
  "well_shaped 2 1 [(0, 1), (1, 0)] [[1], [1]] \<and> \<not> acyclic (set [(0::nat, 1::nat), (1, 0)]) \<and>
   (\<exists>est. get_earliest_start_time 2 1 [(0, 1), (1, 0)] [[1], [1]] = Inr est \<and> length est = 2) \<and>
   (\<exists>lst. get_latest_start_time 2 1 [(0, 1), (1, 0)] [[1], [1]] = Inr lst \<and> length lst = 2)"
proof -
  have ws: "well_shaped 2 1 [(0, 1), (1, 0)] [[1], [1]]" by (simp add: well_shaped_def)
  have "(0::nat, 0::nat) \<in> (set [(0, 1), (1, 0)])\<^sup>+"
    by (rule trancl_trans[of _ 1]) auto
  then have c: "\<not> acyclic (set [(0::nat, 1::nat), (1, 0)])"
    unfolding acyclic_def by blast
  from bound_estimation_without_cycle_check[OF ws] ws c show ?thesis by blast
qed

text \<open>
  A cyclic edge list (\<open>1 \<rightarrow> 2 \<rightarrow> 1\<close>) on which both passes return normally.
\<close>

theorem cyclic_precedence_not_detected:
  "\<not> acyclic (set [(0::nat, 1::nat), (1, 2), (2, 1)]) \<and>
   get_earliest_start_time 3 1 [(0, 1), (1, 2), (2, 1)] [[0], [2], [0]] = Inr [0, 0, 2] \<and>
   get_latest_start_time 3 1 [(0, 1), (1, 2), (2, 1)] [[0], [2], [0]] = Inr [1, 1, - 1]"
proof -
  have "(1::nat, 1::nat) \<in> (set [(0, 1), (1, 2), (2, 1)])\<^sup>+"
    by (rule trancl_trans[of _ 2]) auto
  then have c: "\<not> acyclic (set [(0::nat, 1::nat), (1, 2), (2, 1)])"
    unfolding acyclic_def by blast
  have e: "get_earliest_start_time 3 1 [(0, 1), (1, 2), (2, 1)] [[0], [2], [0]] = Inr [0, 0, 2]"
    by code_simp
  have l: "get_latest_start_time 3 1 [(0, 1), (1, 2), (2, 1)] [[0], [2], [0]] = Inr [1, 1, - 1]"
    by code_simp
  from c e l show ?thesis by blast
qed

section \<open>Earliest against latest start\<close>

text \<open>
  C2. The chain instance is acyclic and its durations are non-negative, yet the backward
  pass returns \<open>[0, 0, -1]\<close> where the forward pass returns \<open>[0, 0, 3]\<close>: for the sink the
  "latest" start lies below the earliest one.
\<close>

theorem chain_latest_start_below_earliest:
  "acyclic (set [(0::nat, 1::nat), (1, 2)]) \<and>
   get_earliest_start_time 3 1 [(0, 1), (1, 2)] [[0], [3], [0]] = Inr [0, 0, 3] \<and>
   get_latest_start_time 3 1 [(0, 1), (1, 2)] [[0], [3], [0]] = Inr [0, 0, - 1]"
proof -
  have a: "acyclic (set [(0::nat, 1::nat), (1, 2)])"
    by (rule topological_acyclic) simp
  have e: "get_earliest_start_time 3 1 [(0, 1), (1, 2)] [[0], [3], [0]] = Inr [0, 0, 3]"
    by code_simp
  have l: "get_latest_start_time 3 1 [(0, 1), (1, 2)] [[0], [3], [0]] = Inr [0, 0, - 1]"
    by code_simp
  from a e l show ?thesis by blast
qed

section \<open>The non-ordered pairs\<close>

lemma set_VP:
  "set (VP n E) = {(i, j). i < n \<and> j < n \<and> (i, j) \<notin> set E \<and> (j, i) \<notin> set E \<and> i \<noteq> j}"
  by (auto simp: VP_def)

lemma acyclic_no_two_cycle:
  assumes "acyclic r" and "(i, j) \<in> r"
  shows "(j, i) \<notin> r"
proof
  assume "(j, i) \<in> r"
  with assms(2) have "(i, i) \<in> r\<^sup>+" by (meson trancl.r_into_trancl trancl_trans)
  with assms(1) show False by (simp add: acyclic_def)
qed

text \<open>
  C9. When the precedence edges are acyclic, as the data model has them, then for every two
  distinct activities \<open>i\<close> and \<open>j\<close> exactly one of the three holds: \<open>(i, j)\<close> is an edge,
  \<open>(j, i)\<close> is an edge, \<open>(i, j)\<close> is in \<open>VP\<close>. And whatever the edge list is, no pair
  of \<open>VP\<close> is an edge in either direction.
\<close>

theorem VP_partition_on_DAG:
  "(acyclic (set E) \<longrightarrow>
      (\<forall>i j. i < n \<and> j < n \<and> i \<noteq> j \<longrightarrow>
         exactly_one ((i, j) \<in> set E) ((j, i) \<in> set E) ((i, j) \<in> set (VP n E)))) \<and>
   (\<forall>a b. (a, b) \<in> set (VP n E) \<longrightarrow> (a, b) \<notin> set E \<and> (b, a) \<notin> set E)"
proof (intro conjI impI allI)
  fix i j
  assume ac: "acyclic (set E)" and ij: "i < n \<and> j < n \<and> i \<noteq> j"
  have "\<not> ((i, j) \<in> set E \<and> (j, i) \<in> set E)"
    using acyclic_no_two_cycle[OF ac] by blast
  with ij show "exactly_one ((i, j) \<in> set E) ((j, i) \<in> set E) ((i, j) \<in> set (VP n E))"
    by (auto simp: set_VP exactly_one_def)
next
  fix a b
  assume "(a, b) \<in> set (VP n E)"
  then show "(a, b) \<notin> set E" by (simp add: set_VP)
next
  fix a b
  assume "(a, b) \<in> set (VP n E)"
  then show "(b, a) \<notin> set E" by (simp add: set_VP)
qed

theorem VP_partition_on_DAG_witness:
  "acyclic (set [(0::nat, 1::nat), (1, 2)]) \<and>
   exactly_one ((0, 2) \<in> set [(0::nat, 1::nat), (1, 2)]) ((2, 0) \<in> set [(0::nat, 1::nat), (1, 2)])
     ((0, 2) \<in> set (VP 3 [(0, 1), (1, 2)])) \<and>
   exactly_one ((0, 1) \<in> set [(0::nat, 1::nat), (1, 2)]) ((1, 0) \<in> set [(0::nat, 1::nat), (1, 2)])
     ((0, 1) \<in> set (VP 3 [(0, 1), (1, 2)]))"
proof -
  have ac: "acyclic (set [(0::nat, 1::nat), (1, 2)])"
    by (rule topological_acyclic) simp
  from VP_partition_on_DAG[of "[(0, 1), (1, 2)]" 3] ac
  have all: "\<forall>i j. i < 3 \<and> j < 3 \<and> i \<noteq> j \<longrightarrow>
         exactly_one ((i, j) \<in> set [(0::nat, 1::nat), (1, 2)]) ((j, i) \<in> set [(0::nat, 1::nat), (1, 2)])
           ((i, j) \<in> set (VP 3 [(0, 1), (1, 2)]))"
    by blast
  from all[rule_format, of 0 2] all[rule_format, of 0 1] ac show ?thesis by simp
qed

section \<open>The divisor divides exactly\<close>

lemma fold_gcd_dvd: "fold gcd xs (a::int) dvd a \<and> (\<forall>x \<in> set xs. fold gcd xs a dvd x)"
proof (induction xs arbitrary: a)
  case Nil
  then show ?case by simp
next
  case (Cons y ys)
  have "fold gcd ys (gcd y a) dvd gcd y a" using Cons.IH by blast
  then have "fold gcd ys (gcd y a) dvd y" "fold gcd ys (gcd y a) dvd a"
    by (meson dvd_trans gcd_dvd1 gcd_dvd2)+
  with Cons.IH[of "gcd y a"] show ?case by simp
qed

lemma fold_gcd_nonneg: "0 \<le> a \<Longrightarrow> 0 \<le> fold gcd xs (a::int)"
  by (induction xs arbitrary: a) simp_all

lemma fold_gcd_zero: "fold gcd xs (a::int) = 0 \<longleftrightarrow> a = 0 \<and> (\<forall>x \<in> set xs. x = 0)"
  by (induction xs arbitrary: a) auto

lemma py_gcd_Gcd: "py_gcd xs = Gcd (set xs)"
  by (simp add: py_gcd_def Gcd_set_eq_fold)

lemma divisor_dvd:
  "py_gcd (unique_processing_times p T) dvd T"
  "row \<in> set p \<Longrightarrow> v \<in> set row \<Longrightarrow> py_gcd (unique_processing_times p T) dvd v"
  using fold_gcd_dvd[of "unique_processing_times p T" 0]
  by (auto simp: py_gcd_def unique_processing_times_def)

lemma divisor_nonneg: "0 \<le> py_gcd (unique_processing_times p T)"
  by (simp add: py_gcd_def fold_gcd_nonneg)

lemma divisor_zero:
  "py_gcd (unique_processing_times p T) = 0 \<longleftrightarrow> T = 0 \<and> (\<forall>row \<in> set p. \<forall>v \<in> set row. v = 0)"
  by (auto simp: py_gcd_def fold_gcd_zero unique_processing_times_def)

lemma table_value_loaded: "table_value (loaded p) = p"
  by (simp add: table_value_def loaded_def map_nth)

lemma distinct_rows_loaded: "distinct_rows (loaded p)"
  by (simp add: distinct_rows_def loaded_def)

lemma length_divide_rows: "length (divide_rows d rows store) = length store"
  by (induction rows arbitrary: store) (simp_all add: divide_rows_def divide_row_def)

lemma divide_rows_nth:
  assumes "distinct rows" and "a < length store"
  shows "divide_rows d rows store ! a =
           (if a \<in> set rows then map (\<lambda>v. v div d) (store ! a) else store ! a)"
  using assms
proof (induction rows arbitrary: store)
  case Nil
  then show ?case by (simp add: divide_rows_def)
next
  case (Cons b bs)
  let ?s = "divide_row d b store"
  have step: "divide_rows d (b # bs) store = divide_rows d bs ?s"
    by (simp add: divide_rows_def)
  have len: "a < length ?s" using Cons.prems(2) by (simp add: divide_row_def)
  have dist: "distinct bs" and nb: "b \<notin> set bs" using Cons.prems(1) by simp_all
  have ih: "divide_rows d bs ?s ! a = (if a \<in> set bs then map (\<lambda>v. v div d) (?s ! a) else ?s ! a)"
    by (rule Cons.IH[OF dist len])
  show ?case
  proof (cases "a = b")
    case True
    with nb ih Cons.prems(2) step show ?thesis by (simp add: divide_row_def)
  next
    case False
    then have "?s ! a = store ! a" by (simp add: divide_row_def)
    with ih step False show ?thesis by simp
  qed
qed

lemma table_value_divided:
  assumes "distinct_rows tb"
  shows "table_value (fst tb, divide_rows d (fst tb) (snd tb)) =
           map (map (\<lambda>v. v div d)) (table_value tb)"
  using assms by (simp add: table_value_def distinct_rows_def divide_rows_nth)

text \<open>
  C10, as the code has it. When the horizon or some duration is positive and no row object
  occurs twice in the table, the normalization block does not raise; its divisor is
  positive, is the greatest common divisor of the horizon and all durations, divides each
  of them, and multiplying the rescaled horizon and table by it gives the original values
  back: no division truncates.
\<close>

theorem normalization_exact_on_distinct_rows:
  assumes "some_time_positive (table_value tb) T" and "distinct_rows tb"
  shows "\<exists>tb' T' d. normalize_processing_times tb T = (tb', Inr (T', d)) \<and> 0 < d \<and>
           d = Gcd (insert T (\<Union>(set ` set (table_value tb)))) \<and>
           d dvd T \<and> (\<forall>row \<in> set (table_value tb). \<forall>v \<in> set row. d dvd v) \<and>
           T' * d = T \<and> map (map (\<lambda>v. v * d)) (table_value tb') = table_value tb"
proof -
  let ?p = "table_value tb"
  let ?d = "py_gcd (unique_processing_times ?p T)"
  let ?tb = "(fst tb, divide_rows ?d (fst tb) (snd tb))"
  from assms(1) have "?d \<noteq> 0"
    unfolding divisor_zero some_time_positive_def by fastforce
  with divisor_nonneg[of ?p T] have pos: "0 < ?d" by simp
  have res: "normalize_processing_times tb T = (?tb, Inr (T div ?d, ?d))"
    using pos by (simp add: normalize_processing_times_def Let_def)
  have val: "table_value ?tb = map (map (\<lambda>v. v div ?d)) ?p"
    by (rule table_value_divided[OF assms(2)])
  have g: "?d = Gcd (insert T (\<Union>(set ` set ?p)))"
    by (simp add: py_gcd_Gcd unique_processing_times_def Un_commute)
  have dT: "?d dvd T" by (rule divisor_dvd)
  have dv: "\<forall>row \<in> set ?p. \<forall>v \<in> set row. ?d dvd v" using divisor_dvd(2) by blast
  have orig: "map (map (\<lambda>v. v * ?d)) (map (map (\<lambda>v. v div ?d)) ?p) = ?p"
  proof -
    have "map ((\<lambda>v. v * ?d) \<circ> (\<lambda>v. v div ?d)) row = row" if "row \<in> set ?p" for row
      using dv that by (intro map_idI) simp
    then show ?thesis by (simp add: map_idI)
  qed
  from res pos g dT dv orig val show ?thesis by simp
qed

theorem normalization_exact_on_distinct_rows_witness:
  "some_time_positive (table_value (loaded [[0], [4], [6], [0]])) 10 \<and>
   distinct_rows (loaded [[0], [4], [6], [0]]) \<and>
   normalize_processing_times (loaded [[0], [4], [6], [0]]) 10 =
     (loaded [[0], [2], [3], [0]], Inr (5, 2))"
proof -
  have h: "some_time_positive (table_value (loaded [[0], [4], [6], [0]])) 10"
    by (simp add: some_time_positive_def table_value_loaded)
  have dr: "distinct_rows (loaded [[0], [4], [6], [0]])" by (rule distinct_rows_loaded)
  from normalization_exact_on_distinct_rows[OF h dr] obtain tb' T' d where
    r: "normalize_processing_times (loaded [[0], [4], [6], [0]]) 10 = (tb', Inr (T', d))"
    and orig: "T' * d = 10" by auto
  have "normalize_processing_times (loaded [[0], [4], [6], [0]]) 10 =
          (loaded [[0], [2], [3], [0]], Inr (5, 2))"
    by code_simp
  with r have "tb' = loaded [[0], [2], [3], [0]]" "T' = 5" "d = 2" by simp_all
  with r orig h dr show ?thesis by simp
qed

text \<open>
  A table whose entries 1 and 2 are one row object \<open>[4]\<close>, with horizon 8: its value is
  \<open>[[0], [4], [4], [0]]\<close> and the divisor is 4. The shared object is divided at both
  visits, \<open>4 // 4 = 1\<close> and then \<open>1 // 4 = 0\<close>: the second division truncates, the table
  ends as \<open>[[0], [0], [0], [0]]\<close>, and multiplying by the divisor does not give the
  original durations back.
\<close>

theorem shared_row_is_divided_twice:
  "some_time_positive (table_value ([0, 1, 1, 2], [[0], [4], [0]])) 8 \<and>
   table_value ([0, 1, 1, 2], [[0], [4], [0]]) = [[0], [4], [4], [0]] \<and>
   normalize_processing_times ([0, 1, 1, 2], [[0], [4], [0]]) 8 =
     (([0, 1, 1, 2], [[0], [0], [0]]), Inr (2, 4)) \<and>
   table_value ([0, 1, 1, 2], [[0], [0], [0]]) = [[0], [0], [0], [0]] \<and>
   map (map (\<lambda>v. v * 4)) [[0], [0], [0], [0]] \<noteq> [[0], [4], [4], [0::int]]"
proof -
  have a: "table_value ([0, 1, 1, 2], [[0], [4], [0]]) = [[0], [4], [4], [0]]"
    by (simp add: table_value_def)
  have b: "some_time_positive (table_value ([0, 1, 1, 2], [[0], [4], [0]])) 8"
    by (simp add: some_time_positive_def)
  have c: "normalize_processing_times ([0, 1, 1, 2], [[0], [4], [0]]) 8 =
     (([0, 1, 1, 2], [[0], [0], [0]]), Inr (2, 4))"
    by code_simp
  have d: "table_value ([0, 1, 1, 2], [[0], [0], [0]]) = [[0], [0], [0], [0]]"
    by (simp add: table_value_def)
  from a b c d show ?thesis by simp
qed

section \<open>Reading a builder's result\<close>

lemma py_bind_Inr: "py_bind x f = Inr y \<longleftrightarrow> (\<exists>v. x = Inr v \<and> f v = Inr y)"
  by (cases x) (simp_all add: py_bind_def)

lemma for_each_mem:
  assumes "for_each f xs = Inr ys" and "x \<in> set xs"
  shows "\<exists>y. f x = Inr y \<and> y \<in> set ys"
  using assms
proof (induction xs arbitrary: ys)
  case Nil
  then show ?case by simp
next
  case (Cons a as)
  from Cons.prems(1) obtain y ys' where a: "f a = Inr y" and r: "for_each f as = Inr ys'"
    and ys: "ys = y # ys'"
    by (auto simp: py_bind_Inr)
  show ?case
  proof (cases "x = a")
    case True
    with a ys show ?thesis by simp
  next
    case False
    with Cons.prems(2) have "x \<in> set as" by simp
    from Cons.IH[OF r this] ys show ?thesis by auto
  qed
qed

lemma quicksum_of_terms:
  assumes "quicksum_of f xs = Inr e" and "x \<in> set xs"
  shows "\<exists>ex. f x = Inr ex \<and> set (fst ex) \<subseteq> set (fst e)"
proof -
  from assms(1) obtain es where es: "for_each f xs = Inr es" and e: "e = quicksum es"
    by (auto simp: quicksum_of_def py_bind_Inr)
  from for_each_mem[OF es assms(2)] obtain ex where "f x = Inr ex" "ex \<in> set es" by blast
  with e show ?thesis by (auto simp: quicksum_def)
qed

lemma build_fst:
  "fst (build body inst) =
     table_value (fst (normalize_processing_times (inst_p inst) (inst_T inst)))"
  by (simp add: build_def split: prod.splits sum.splits)

lemma build_Inr:
  assumes "build body inst = (p', Inr (mdl, d))"
  shows "\<exists>tb T est. normalize_processing_times (inst_p inst) (inst_T inst) = (tb, Inr (T, d)) \<and>
           p' = table_value tb \<and>
           get_earliest_start_time (inst_n inst) (inst_M inst) (inst_E inst) p' = Inr est \<and>
           body inst p' T est = Inr mdl"
  using assms
  by (auto simp: build_def py_bind_Inr split: prod.splits sum.splits)

lemma getvar_addVars:
  "getvar (addVars name keys) key = Inr v \<Longrightarrow> v = Var name key"
  by (auto simp: getvar_def addVars_def split: if_splits)

lemma zero_time_slots_emits:
  assumes "zero_time_slots (addVars name keys) n M est = Inr zts"
    and "i < n" and "m < M" and "0 \<le> t" and "t < est ! i"
  shows "Constr (lin_var (Var name [int i, int m, t])) EQ (lin_const 0) \<in> set zts"
proof -
  have "(i, m, t) \<in> set [(i, m, t). i \<leftarrow> [0..<n], m \<leftarrow> [0..<M], t \<leftarrow> py_range 0 (est ! i)]"
  proof -
    have "t \<in> set (py_range 0 (est ! i))" using assms(4,5) by (simp add: py_range_def)
    with assms(2,3) show ?thesis by force
  qed
  from for_each_mem[OF assms(1)[unfolded zero_time_slots_def] this]
  show ?thesis by (auto simp: py_bind_Inr dest: getvar_addVars)
qed

lemma tagged_mem: "c \<in> set cs \<Longrightarrow> (name, c) \<in> set (tagged name cs)"
  by (simp add: tagged_def)

lemma pulse_body_zero:
  assumes "pulse_body inst p T est = Inr mdl"
  shows "\<exists>zts. zero_time_slots (addVars ''pulse'' (step_sets (inst_n inst) (inst_M inst) T))
            (inst_n inst) (inst_M inst) est = Inr zts \<and>
           set (tagged ''zero_time_slots'' zts) \<subseteq> set (constraints mdl)"
  using assms by (auto simp: pulse_body_def Let_def py_bind_Inr)

lemma pulse_disaggregated_body_zero:
  assumes "pulse_disaggregated_body inst p T est = Inr mdl"
  shows "\<exists>zts. zero_time_slots (addVars ''pulse'' (step_sets (inst_n inst) (inst_M inst) T))
            (inst_n inst) (inst_M inst) est = Inr zts \<and>
           set (tagged ''zero_time_slots'' zts) \<subseteq> set (constraints mdl)"
  using assms by (auto simp: pulse_disaggregated_body_def Let_def py_bind_Inr)

lemma onoff_pulse_body_zero:
  assumes "onoff_pulse_body dis inst p T est = Inr mdl"
  shows "\<exists>zts. zero_time_slots (addVars ''pulse'' (step_sets (inst_n inst) (inst_M inst) T))
            (inst_n inst) (inst_M inst) est = Inr zts \<and>
           set (tagged ''zero_time_slots'' zts) \<subseteq> set (constraints mdl)"
  using assms by (auto simp: onoff_pulse_body_def Let_def py_bind_Inr)

lemma onoff_body_zero:
  assumes "onoff_body inst p T est = Inr mdl"
  shows "\<exists>zts. zero_time_slots (addVars ''onoff'' (step_sets (inst_n inst) (inst_M inst) T))
            (inst_n inst) (inst_M inst) est = Inr zts \<and>
           set (tagged ''zero_time_slots'' zts) \<subseteq> set (constraints mdl)"
  using assms by (auto simp: onoff_body_def Let_def py_bind_Inr)

lemma step_body_zero:
  assumes "step_body dis inst p T est = Inr mdl"
  shows "\<exists>zts. zero_time_slots (addVars ''pulse'' (step_sets (inst_n inst) (inst_M inst) T))
            (inst_n inst) (inst_M inst) est = Inr zts \<and>
           set (tagged ''earliest_start_times'' zts) \<subseteq> set (constraints mdl)"
  using assms by (auto simp: step_body_def Let_def py_bind_Inr)

lemma continuous_body_early:
  assumes "continuous_body vp inst p T est = Inr mdl"
  shows "\<exists>early. earliest_starting_times (addVars ''activity'' [[int i]. i \<leftarrow> [0..<inst_n inst]])
            (inst_n inst) est = Inr early \<and>
           set (tagged ''earliest_starting_times'' early) \<subseteq> set (constraints mdl)"
  using assms by (auto simp: continuous_body_def Let_def py_bind_Inr)

section \<open>The optimum of two encodings on one instance\<close>

lemma feasible_constraint:
  "feasible mdl a \<Longrightarrow> (name, c) \<in> set (constraints mdl) \<Longrightarrow> holds a c"
  by (auto simp: feasible_def list_all_iff)

lemma feasible_domain:
  "feasible mdl a \<Longrightarrow> (v, ty) \<in> set (variables mdl) \<Longrightarrow> in_domain a (v, ty)"
  by (auto simp: feasible_def list_all_iff)

lemma binary_in_domain:
  assumes "\<And>v. a v = 0 \<or> a v = 1"
  shows "list_all (in_domain a) (declared BINARY d)"
  using assms by (simp add: declared_def list_all_iff)

lemma two_parallel_pulse_feasible:
  "feasible two_parallel_pulse (parallel_pulses)"
proof -
  have "list_all (in_domain (parallel_pulses)) (variables two_parallel_pulse)"
    by (simp add: two_parallel_pulse_def binary_in_domain parallel_pulses_def)
  moreover have "list_all (\<lambda>(name, c). holds (parallel_pulses) c) (constraints two_parallel_pulse)"
    by (simp add: two_parallel_pulse_def parallel_pulses_def eval_def)
  ultimately show ?thesis by (simp add: feasible_def)
qed

lemma two_parallel_pulse_value:
  "eval (parallel_pulses) (objective two_parallel_pulse) = 1"
  by (simp add: two_parallel_pulse_def parallel_pulses_def eval_def)

lemma two_parallel_pulse_bound:
  assumes "feasible two_parallel_pulse a"
  shows "1 \<le> eval a (objective two_parallel_pulse)"
proof -
  have z: "holds a (Constr ([(1, Var ''pulse'' [3, 0, 0])], 0) EQ ([], 0))"
    by (rule feasible_constraint[OF assms, of "''zero_time_slots''"])
       (simp add: two_parallel_pulse_def)
  have s: "holds a (Constr ([(1, Var ''pulse'' [3, 0, 0]), (1, Var ''pulse'' [3, 0, 1]),
                 (1, Var ''pulse'' [3, 0, 2]), (1, Var ''pulse'' [3, 0, 3])], 0) EQ ([], 1))"
    by (rule feasible_constraint[OF assms, of "''schedule''"])
       (simp add: two_parallel_pulse_def)
  have d2: "in_domain a (Var ''pulse'' [3, 0, 2], BINARY)"
    by (rule feasible_domain[OF assms]) code_simp
  have d3: "in_domain a (Var ''pulse'' [3, 0, 3], BINARY)"
    by (rule feasible_domain[OF assms]) code_simp
  from z s d2 d3 show ?thesis
    by (auto simp: two_parallel_pulse_def eval_def)
qed

lemma two_parallel_pulse_optimum: "optimal_value two_parallel_pulse 1"
  unfolding optimal_value_def
  using two_parallel_pulse_feasible two_parallel_pulse_value two_parallel_pulse_bound
  by blast

lemma binary_family_in_domain:
  assumes "\<And>key. a (Var name key) = 0 \<or> a (Var name key) = 1"
  shows "list_all (in_domain a) (declared BINARY (addVars name keys))"
  using assms by (simp add: declared_def addVars_def list_all_iff)

lemma continuous_family_in_domain:
  assumes "\<And>key. 0 \<le> a (Var name key)"
  shows "list_all (in_domain a) (declared CONTINUOUS (addVars name keys))"
  using assms by (simp add: declared_def addVars_def list_all_iff)

lemma two_parallel_continuous_feasible:
  "feasible two_parallel_continuous one_after_the_other"
proof -
  have "list_all (in_domain one_after_the_other) (variables two_parallel_continuous)"
    by (simp add: two_parallel_continuous_def binary_family_in_domain
        continuous_family_in_domain one_after_the_other_def)
  moreover have "list_all (\<lambda>(name, c). holds one_after_the_other c) (constraints two_parallel_continuous)"
    by (simp add: two_parallel_continuous_def one_after_the_other_def eval_def)
  ultimately show ?thesis by (simp add: feasible_def)
qed

lemma two_parallel_continuous_value:
  "eval one_after_the_other (objective two_parallel_continuous) = 2"
  by (simp add: two_parallel_continuous_def one_after_the_other_def eval_def)

lemma two_parallel_continuous_bound:
  assumes "feasible two_parallel_continuous a"
  shows "2 \<le> eval a (objective two_parallel_continuous)"
proof -
  let ?S = "\<lambda>i. a (Var ''activity'' [i])"
  let ?x = "\<lambda>i. a (Var ''mode'' [i, 0])"
  let ?y = "a (Var ''completion_start_sequence'' [1, 2])"
  let ?z = "a (Var ''start_start_sequence'' [1, 2])"
  let ?u = "a (Var ''resource'' [1, 2, 0])"
  have "holds a (Constr ([(1, Var ''mode'' [1, 0])], 0) EQ ([], 1))"
    by (rule feasible_constraint[OF assms, of "''execute_activity''"])
       (simp add: two_parallel_continuous_def)
  then have x1: "?x 1 = 1" by (simp add: eval_def)
  have "holds a (Constr ([(1, Var ''mode'' [2, 0])], 0) EQ ([], 1))"
    by (rule feasible_constraint[OF assms, of "''execute_activity''"])
       (simp add: two_parallel_continuous_def)
  then have x2: "?x 2 = 1" by (simp add: eval_def)
  have "holds a (Constr ([(1, Var ''activity'' [1]), (1, Var ''mode'' [1, 0])], 0) LE
               ([(1, Var ''activity'' [3])], 0))"
    by (rule feasible_constraint[OF assms, of "''connect_start_completion''"])
       (simp add: two_parallel_continuous_def)
  with x1 have p13: "?S 1 + 1 \<le> ?S 3" by (simp add: eval_def)
  have "holds a (Constr ([(1, Var ''activity'' [2]), (1, Var ''mode'' [2, 0])], 0) LE
               ([(1, Var ''activity'' [3])], 0))"
    by (rule feasible_constraint[OF assms, of "''connect_start_completion''"])
       (simp add: two_parallel_continuous_def)
  with x2 have p23: "?S 2 + 1 \<le> ?S 3" by (simp add: eval_def)
  have "holds a (Constr ([(2, Var ''mode'' [1, 0]), (2, Var ''start_start_sequence'' [1, 2]),
                 (- 2, Var ''completion_start_sequence'' [1, 2])], - 2)
               LE ([(1, Var ''resource'' [1, 2, 0])], 0))"
    by (rule feasible_constraint[OF assms, of "''resource''"])
       (simp add: two_parallel_continuous_def)
  with x1 have res: "2 * ?z - 2 * ?y \<le> ?u" by (simp add: eval_def)
  have "holds a (Constr ([(1, Var ''activity'' [1]), (1, Var ''mode'' [1, 0])], 0) LE
               ([(1, Var ''activity'' [2]), (- 4, Var ''completion_start_sequence'' [1, 2])], 4))"
    by (rule feasible_constraint[OF assms, of "''connect_start_completion''"])
       (simp add: two_parallel_continuous_def)
  with x1 have csc: "?S 1 + 1 \<le> ?S 2 - 4 * ?y + 4" by (simp add: eval_def)
  have "holds a (Constr ([(4, Var ''start_start_sequence'' [1, 2])], 0) GE
               ([(1, Var ''activity'' [2]), (- 1, Var ''activity'' [1])], 1))"
    by (rule feasible_constraint[OF assms, of "''connect_start_start_timing''"])
       (simp add: two_parallel_continuous_def)
  then have sst: "?S 2 - ?S 1 + 1 \<le> 4 * ?z" by (simp add: eval_def)
  have "in_domain a (Var ''completion_start_sequence'' [1, 2], BINARY)"
    by (rule feasible_domain[OF assms]) code_simp
  then have y: "?y = 0 \<or> ?y = 1" by simp
  have "in_domain a (Var ''start_start_sequence'' [1, 2], BINARY)"
    by (rule feasible_domain[OF assms]) code_simp
  then have z: "?z = 0 \<or> ?z = 1" by simp
  have "in_domain a (Var ''resource'' [1, 2, 0], BINARY)"
    by (rule feasible_domain[OF assms]) code_simp
  then have u: "?u = 0 \<or> ?u = 1" by simp
  have "in_domain a (Var ''activity'' [1], CONTINUOUS)"
    by (rule feasible_domain[OF assms]) code_simp
  then have s1: "0 \<le> ?S 1" by simp
  have "in_domain a (Var ''activity'' [2], CONTINUOUS)"
    by (rule feasible_domain[OF assms]) code_simp
  then have s2: "0 \<le> ?S 2" by simp
  from res y z u have "?z = 0 \<or> ?y = 1" by auto
  then have "2 \<le> ?S 3"
  proof
    assume "?z = 0"
    with sst s2 p13 show ?thesis by simp
  next
    assume "?y = 1"
    with csc s1 p23 show ?thesis by simp
  qed
  then show ?thesis by (simp add: two_parallel_continuous_def eval_def)
qed

lemma two_parallel_continuous_optimum: "optimal_value two_parallel_continuous 2"
  unfolding optimal_value_def
  using two_parallel_continuous_feasible two_parallel_continuous_value two_parallel_continuous_bound
  by blast


lemma pulse_model_two_parallel:
  "pulse_model two_parallel (VP 4 (inst_E two_parallel)) =
     ([[0], [1], [1], [0]], Inr (two_parallel_pulse, 1))"
  by code_simp

lemma continuous_model_two_parallel:
  "continuous_model two_parallel (VP 4 (inst_E two_parallel)) =
     ([[0], [1], [1], [0]], Inr (two_parallel_continuous, 1))"
  by code_simp

text \<open>
  C1. On the instance \<open>two_parallel\<close>, with the pair set that \<open>test_models\<close> derives,
  both builders return a model and the divisor 1. The optimal objective value of the pulse
  model is 1 (both activities run side by side, using the four units), that of the
  continuous model is 2: its overlap variables \<open>u\<close> are binary, so the requirement 2 of an
  overlapping activity cannot be carried and the two activities must follow one another.
  The reported objectives, 1 and 2, differ.
\<close>

theorem encodings_disagree:
  "pulse_model two_parallel (VP 4 (inst_E two_parallel)) =
     ([[0], [1], [1], [0]], Inr (two_parallel_pulse, 1)) \<and>
   continuous_model two_parallel (VP 4 (inst_E two_parallel)) =
     ([[0], [1], [1], [0]], Inr (two_parallel_continuous, 1)) \<and>
   optimal_value two_parallel_pulse 1 \<and> optimal_value two_parallel_continuous 2"
  using pulse_model_two_parallel continuous_model_two_parallel
    two_parallel_pulse_optimum two_parallel_continuous_optimum
  by blast

text \<open>
  The two schedules are feasible for their models, so the bounds of the optima are bounds on
  objective values that occur.
\<close>

theorem encodings_disagree_witness:
  "feasible two_parallel_pulse parallel_pulses \<and>
   1 \<le> eval parallel_pulses (objective two_parallel_pulse) \<and>
   feasible two_parallel_continuous one_after_the_other \<and>
   2 \<le> eval one_after_the_other (objective two_parallel_continuous)"
proof -
  from encodings_disagree have
    a: "\<forall>a. feasible two_parallel_pulse a \<longrightarrow> 1 \<le> eval a (objective two_parallel_pulse)" and
    b: "\<forall>a. feasible two_parallel_continuous a \<longrightarrow> 2 \<le> eval a (objective two_parallel_continuous)"
    by (simp_all add: optimal_value_def)
  from a b two_parallel_pulse_feasible two_parallel_continuous_feasible show ?thesis by blast
qed

end
